theory Spec2Isabelle
  imports Complex_Main
begin

section \<open>Preliminaries\<close>

text \<open>
  The sources compute every price, size and fee with \<^verbatim>\<open>decimal.js\<close> values.  A
  \<^verbatim>\<open>Decimal\<close> is modelled as the real number it denotes.  The library rounds the result
  of \<^verbatim>\<open>plus\<close>, \<^verbatim>\<open>minus\<close>, \<^verbatim>\<open>times\<close> and \<^verbatim>\<open>div\<close> to its precision, 20 significant
  digits, half away from zero (the defaults, which the sources never change); the
  position-sizing functions below are modelled with that rounding (\<open>toPrecision\<close>), the
  other components with exact arithmetic.  The library's exponent limits are not
  modelled.  A \<^verbatim>\<open>Date\<close> is its millisecond time stamp.
\<close>

type_synonym decimal = real
type_synonym date = int

text \<open>
  The decimal exponent of a non-zero number: \<open>decExpUp\<close> counts the divisions by ten
  that bring \<open>x \<ge> 1\<close> below ten, \<open>decExpDown\<close> the multiplications by ten that bring
  \<open>0 < x < 1\<close> up to one.
\<close>

function decExpUp :: "real \<Rightarrow> int" where
  "decExpUp x = (if x < 10 then 0 else 1 + decExpUp (x / 10))"
  by pat_completeness auto
termination
proof (relation "measure (\<lambda>x. nat \<lfloor>x\<rfloor>)")
  show "wf (measure (\<lambda>x::real. nat \<lfloor>x\<rfloor>))" by simp
next
  fix x :: real
  assume a: "\<not> x < 10"
  have "x / 10 \<le> x - 9" using a by simp
  then have "\<lfloor>x / 10\<rfloor> \<le> \<lfloor>x - 9\<rfloor>" by (rule floor_mono)
  also have "\<lfloor>x - 9\<rfloor> = \<lfloor>x\<rfloor> - 9" by simp
  finally have "\<lfloor>x / 10\<rfloor> < \<lfloor>x\<rfloor>" by simp
  moreover have "0 < \<lfloor>x\<rfloor>" using a by simp
  ultimately show "(x / 10, x) \<in> measure (\<lambda>x. nat \<lfloor>x\<rfloor>)" by simp
qed

function decExpDown :: "real \<Rightarrow> int" where
  "decExpDown x = (if x \<le> 0 \<or> 1 \<le> x then 0 else decExpDown (x * 10) - 1)"
  by pat_completeness auto
termination
proof (relation "measure (\<lambda>x. nat \<lceil>1 / x\<rceil>)")
  show "wf (measure (\<lambda>x::real. nat \<lceil>1 / x\<rceil>))" by simp
next
  fix x :: real
  assume a: "\<not> (x \<le> 0 \<or> 1 \<le> x)"
  then have x: "0 < x" "x < 1" by simp_all
  define n where "n = \<lceil>1 / x\<rceil>"
  have y1: "1 < 1 / x" using x by simp
  have up: "1 / x \<le> real_of_int n" unfolding n_def by (rule le_of_int_ceiling)
  from y1 up have "1 < real_of_int n" by linarith
  then have n2: "2 \<le> n" by linarith
  then have n2r: "(2::real) \<le> real_of_int n" by linarith
  have "1 / (x * 10) = (1 / x) / 10" by simp
  also have "\<dots> \<le> real_of_int n / 10" using up by (simp add: divide_right_mono)
  also have "\<dots> \<le> real_of_int n - 1" using n2r by linarith
  finally have "1 / (x * 10) \<le> real_of_int (n - 1)" by simp
  then have "\<lceil>1 / (x * 10)\<rceil> \<le> n - 1" by (simp only: ceiling_le_iff)
  with n2 have lt: "\<lceil>1 / (x * 10)\<rceil> < n" and pos: "0 < n" by linarith+
  have "nat \<lceil>1 / (x * 10)\<rceil> < nat n"
    using lt by (simp only: nat_mono_iff [OF pos])
  then show "(x * 10, x) \<in> measure (\<lambda>x. nat \<lceil>1 / x\<rceil>)"
    unfolding n_def by (simp only: in_measure)
qed

declare decExpUp.simps [simp del]
declare decExpDown.simps [simp del]

definition decExponent :: "real \<Rightarrow> int" where
  "decExponent x = (if 1 \<le> \<bar>x\<bar> then decExpUp \<bar>x\<bar> else decExpDown \<bar>x\<bar>)"

text \<open>Rounding to 20 significant digits, half away from zero.\<close>

definition toPrecision :: "real \<Rightarrow> real" where
  "toPrecision x =
     (if x = 0 then 0
      else
        let scale = 10 powi (19 - decExponent x)
        in sgn x * of_int \<lfloor>\<bar>x\<bar> * scale + 1 / 2\<rfloor> / scale)"

text \<open>The four rounded operations of a \<^verbatim>\<open>Decimal\<close>.\<close>

definition dplus :: "decimal \<Rightarrow> decimal \<Rightarrow> decimal" where
  "dplus a b = toPrecision (a + b)"

definition dminus :: "decimal \<Rightarrow> decimal \<Rightarrow> decimal" where
  "dminus a b = toPrecision (a - b)"

definition dtimes :: "decimal \<Rightarrow> decimal \<Rightarrow> decimal" where
  "dtimes a b = toPrecision (a * b)"

definition ddiv :: "decimal \<Rightarrow> decimal \<Rightarrow> decimal" where
  "ddiv a b = toPrecision (a / b)"

datatype OrderSide = Buy | Sell
datatype OrderType = Limit | Market

record PriceLevel =
  price :: decimal
  psize :: decimal

text \<open>
  A JavaScript \<^verbatim>\<open>Map\<close> iterates in insertion order; \<^verbatim>\<open>set\<close> on a key that is present
  replaces the value and keeps the position, on a new key it appends; \<^verbatim>\<open>delete\<close> removes
  the entry.  It is modelled as an association list.
\<close>

fun map_set :: "'k \<Rightarrow> 'v \<Rightarrow> ('k \<times> 'v) list \<Rightarrow> ('k \<times> 'v) list" where
  "map_set k v [] = [(k, v)]"
| "map_set k v ((k', v') # m) =
     (if k' = k then (k, v) # m else (k', v') # map_set k v m)"

definition map_delete :: "'k \<Rightarrow> ('k \<times> 'v) list \<Rightarrow> ('k \<times> 'v) list" where
  "map_delete k m = filter (\<lambda>e. fst e \<noteq> k) m"


definition map_values :: "('k \<times> 'v) list \<Rightarrow> 'v list" where
  "map_values m = map snd m"

section \<open>The in-memory order book (packages/storage/src/orderbook.ts)\<close>

record OrderBook =
  marketId :: string
  tokenId :: string
  bids :: "PriceLevel list"
  asks :: "PriceLevel list"
  lastUpdate :: date
  sequence :: "int option"

record InMemoryOrderBook =
  book :: OrderBook
  lastSequence :: "int option"

datatype SortOrder = Asc | Desc

text \<open>The constructor copies the two sides and remembers the snapshot's sequence.\<close>

definition newInMemoryOrderBook :: "OrderBook \<Rightarrow> InMemoryOrderBook" where
  "newInMemoryOrderBook initialBook =
     \<lparr> book = initialBook, lastSequence = sequence initialBook \<rparr>"

text \<open>
  \<^verbatim>\<open>applyLevels\<close>: the map is keyed by \<^verbatim>\<open>price.toString()\<close>, which is canonical for a
  decimal value, so the key is the price itself.  The sort is the stable sort of the
  array with the comparator \<^verbatim>\<open>cmp\<close> (ascending) or \<^verbatim>\<open>-cmp\<close> (descending).
\<close>

definition addExisting :: "PriceLevel list \<Rightarrow> (decimal \<times> PriceLevel) list" where
  "addExisting existing = foldl (\<lambda>m level. map_set (price level) level m) [] existing"

definition applyUpdate ::
  "(decimal \<times> PriceLevel) list \<Rightarrow> PriceLevel \<Rightarrow> (decimal \<times> PriceLevel) list" where
  "applyUpdate m update =
     (if psize update \<le> 0 then map_delete (price update) m
      else map_set (price update) update m)"

definition sortLevels :: "SortOrder \<Rightarrow> PriceLevel list \<Rightarrow> PriceLevel list" where
  "sortLevels sortOrder levels =
     (case sortOrder of
        Asc \<Rightarrow> sort_key price levels
      | Desc \<Rightarrow> sort_key (\<lambda>l. - price l) levels)"

definition applyLevels ::
  "PriceLevel list \<Rightarrow> PriceLevel list \<Rightarrow> SortOrder \<Rightarrow> PriceLevel list" where
  "applyLevels existing updates sortOrder =
     sortLevels sortOrder (map_values (foldl applyUpdate (addExisting existing) updates))"

text \<open>
  \<^verbatim>\<open>applyDelta(bids, asks, sequence?)\<close>; \<open>now\<close> is the value of \<^verbatim>\<open>new Date()\<close> read
  by the call.
\<close>

definition isStale :: "InMemoryOrderBook \<Rightarrow> int option \<Rightarrow> bool" where
  "isStale st seq =
     (case seq of
        None \<Rightarrow> False
      | Some q \<Rightarrow> (case lastSequence st of None \<Rightarrow> False | Some s \<Rightarrow> q \<le> s))"

definition applyDelta ::
  "InMemoryOrderBook \<Rightarrow> PriceLevel list \<Rightarrow> PriceLevel list \<Rightarrow> int option \<Rightarrow> date
     \<Rightarrow> InMemoryOrderBook" where
  "applyDelta st bidUpdates askUpdates seq now =
     (if isStale st seq then st
      else
        let b1 = (book st)\<lparr> bids := applyLevels (bids (book st)) bidUpdates Desc \<rparr>;
            b2 = b1\<lparr> asks := applyLevels (asks b1) askUpdates Asc \<rparr>;
            b3 = b2\<lparr> lastUpdate := now \<rparr>
        in (case seq of
              None \<Rightarrow> st\<lparr> book := b3 \<rparr>
            | Some q \<Rightarrow> st\<lparr> book := b3\<lparr> sequence := Some q \<rparr>, lastSequence := Some q \<rparr>))"

text \<open>A delta as it reaches \<^verbatim>\<open>applyDelta\<close>, with the clock value its call reads.\<close>

record Delta =
  d_bids :: "PriceLevel list"
  d_asks :: "PriceLevel list"
  d_sequence :: "int option"
  d_now :: date

definition applyDeltas :: "InMemoryOrderBook \<Rightarrow> Delta list \<Rightarrow> InMemoryOrderBook" where
  "applyDeltas st ds =
     foldl (\<lambda>s d. applyDelta s (d_bids d) (d_asks d) (d_sequence d) (d_now d)) st ds"

definition getBestBid :: "InMemoryOrderBook \<Rightarrow> decimal option" where
  "getBestBid st = (case bids (book st) of [] \<Rightarrow> None | l # _ \<Rightarrow> Some (price l))"

definition getBestAsk :: "InMemoryOrderBook \<Rightarrow> decimal option" where
  "getBestAsk st = (case asks (book st) of [] \<Rightarrow> None | l # _ \<Rightarrow> Some (price l))"

text \<open>The ordering contract of one side, and of the whole book.\<close>

definition bidsOrdered :: "PriceLevel list \<Rightarrow> bool" where
  "bidsOrdered ls = (sorted_wrt (\<lambda>a b. a > b) (map price ls) \<and> distinct (map price ls))"

definition asksOrdered :: "PriceLevel list \<Rightarrow> bool" where
  "asksOrdered ls = (sorted_wrt (\<lambda>a b. a < b) (map price ls) \<and> distinct (map price ls))"

definition sizesPositive :: "PriceLevel list \<Rightarrow> bool" where
  "sizesPositive ls = list_all (\<lambda>l. 0 < psize l) ls"

definition sidesOrdered :: "InMemoryOrderBook \<Rightarrow> bool" where
  "sidesOrdered st = (bidsOrdered (bids (book st)) \<and> asksOrdered (asks (book st)))"

definition allSizesPositive :: "InMemoryOrderBook \<Rightarrow> bool" where
  "allSizesPositive st = (sizesPositive (bids (book st)) \<and> sizesPositive (asks (book st)))"

section \<open>The risk manager (risk-manager.ts) and the risk gate (risk-gate.ts)\<close>


datatype Strategy = Parity | Xrv | Time


text \<open>The entries of the global configuration that the risk manager reads.\<close>

record Config =
  MAX_POSITION_PER_MARKET :: decimal
  MAX_DAILY_LOSS :: decimal
  MAX_ORDER_RATE_PER_SECOND :: decimal
  MAX_GROSS_EXPOSURE :: decimal



record RiskManager =
  rm_config :: Config
  dailyPnl :: decimal
  dailyStartTime :: date
  orderCount :: nat
  orderWindowStart :: date
  errorCount :: nat
  errorWindowStart :: date
  maxDrawdownSeen :: decimal
  peakBalance :: decimal









definition updateDailyPnl :: "RiskManager \<Rightarrow> decimal \<Rightarrow> RiskManager" where
  "updateDailyPnl rm pnl = rm\<lparr> dailyPnl := dailyPnl rm + pnl \<rparr>"

subsection \<open>Position sizing (math.ts, risk-manager.ts)\<close>

text \<open>
  Every \<^verbatim>\<open>minus\<close>, \<^verbatim>\<open>div\<close> and \<^verbatim>\<open>times\<close> here is the rounded operation; the tests
  \<^verbatim>\<open>lte\<close>, and \<^verbatim>\<open>Decimal.min\<close>, \<^verbatim>\<open>Decimal.max\<close> and \<^verbatim>\<open>abs\<close>, do not round.
\<close>

definition kellyFraction :: "decimal \<Rightarrow> decimal \<Rightarrow> decimal \<Rightarrow> decimal" where
  "kellyFraction winProb winAmount lossAmount =
     (if lossAmount \<le> 0 \<or> winAmount \<le> 0 then 0
      else
        let q = dminus 1 winProb;
            b = ddiv winAmount lossAmount;
            kelly = dminus winProb (ddiv q b)
        in max 0 (min 1 kelly))"

definition fixedFractionalSize :: "decimal \<Rightarrow> decimal \<Rightarrow> decimal \<Rightarrow> decimal" where
  "fixedFractionalSize accountBalance riskPerTrade stopLoss =
     (if stopLoss \<le> 0 then 0
      else ddiv (dtimes accountBalance riskPerTrade) \<bar>stopLoss\<bar>)"

text \<open>
  An optional parameter is an \<open>option\<close>; a \<^verbatim>\<open>Decimal\<close> object is truthy whatever its
  value, so \<^verbatim>\<open>winProb && winAmount && lossAmount\<close> holds exactly when all three are given.
  \<^verbatim>\<open>riskPerTrade\<close> defaults to \<^verbatim>\<open>0.02\<close>.
\<close>

definition calculatePositionSize ::
  "decimal \<Rightarrow> decimal \<Rightarrow> decimal option \<Rightarrow> decimal option \<Rightarrow> decimal option
     \<Rightarrow> decimal option \<Rightarrow> decimal option \<Rightarrow> decimal" where
  "calculatePositionSize signalSize balance riskPerTrade stopLoss winProb winAmount lossAmount =
     (case (winProb, winAmount, lossAmount) of
        (Some p, Some w, Some l) \<Rightarrow>
          (let kelly = kellyFraction p w l;
               kellySize = dtimes (dtimes balance kelly) (25 / 100)
           in min signalSize kellySize)
      | _ \<Rightarrow>
          (case stopLoss of
             Some sl \<Rightarrow>
               (let fixedSize =
                      fixedFractionalSize balance
                        (case riskPerTrade of None \<Rightarrow> 2 / 100 | Some r \<Rightarrow> r) sl
                in min signalSize fixedSize)
           | None \<Rightarrow> min signalSize (dtimes balance (5 / 100))))"

subsection \<open>The gate\<close>



















section \<open>The market book and the feature engine (market-state-store.ts, math.ts)\<close>

text \<open>
  The order book that the state store and the simulator receive (the \<^verbatim>\<open>OrderBook\<close> of
  the exchange client): it carries a \<^verbatim>\<open>timestamp\<close> where the stored book has
  \<^verbatim>\<open>lastUpdate\<close>.
\<close>

record MarketBook =
  mb_tokenId :: string
  mb_bids :: "PriceLevel list"
  mb_asks :: "PriceLevel list"
  mb_timestamp :: date
  mb_sequence :: "int option"

record TradeRecord =
  tr_tokenId :: string
  tr_price :: decimal
  tr_size :: decimal
  tr_side :: OrderSide
  tr_timestamp :: date

record DerivedFeatures =
  midPrice :: "decimal option"
  spread :: "decimal option"
  spreadBps :: "decimal option"
  bidDepth :: decimal
  askDepth :: decimal
  ema :: "decimal option"
  ewmaVol :: "decimal option"
  df_lastUpdate :: date

definition calculateSpread :: "MarketBook \<Rightarrow> decimal option" where
  "calculateSpread b =
     (case mb_bids b of
        [] \<Rightarrow> None
      | bestBid # _ \<Rightarrow>
          (case mb_asks b of
             [] \<Rightarrow> None
           | bestAsk # _ \<Rightarrow> Some (price bestAsk - price bestBid)))"

definition calculateMidPrice :: "MarketBook \<Rightarrow> decimal option" where
  "calculateMidPrice b =
     (case mb_bids b of
        [] \<Rightarrow> None
      | bestBid # _ \<Rightarrow>
          (case mb_asks b of
             [] \<Rightarrow> None
           | bestAsk # _ \<Rightarrow> Some ((price bestBid + price bestAsk) / 2)))"

subsection \<open>EMA and volatility\<close>

record EMA =
  alpha :: decimal
  ema_value :: "decimal option"

definition newEMA :: "nat \<Rightarrow> EMA" where
  "newEMA period = \<lparr> alpha = 2 / (real period + 1), ema_value = None \<rparr>"

text \<open>\<^verbatim>\<open>EMA.update\<close> returns the new value and the updated object.\<close>

definition ema_update :: "EMA \<Rightarrow> decimal \<Rightarrow> decimal \<times> EMA" where
  "ema_update e p =
     (let v = (case ema_value e of
                 None \<Rightarrow> p
               | Some old \<Rightarrow> alpha e * p + (1 - alpha e) * old)
      in (v, e\<lparr> ema_value := Some v \<rparr>))"

text \<open>The loop over \<^verbatim>\<open>i = 1 .. prices.length - 1\<close> that collects the simple returns.\<close>

fun simpleReturns :: "decimal list \<Rightarrow> decimal list" where
  "simpleReturns (a # b # rest) =
     (if a > 0 then (b - a) / a # simpleReturns (b # rest) else simpleReturns (b # rest))"
| "simpleReturns _ = []"

definition meanOf :: "decimal list \<Rightarrow> decimal" where
  "meanOf rs = foldl (\<lambda>sum r. sum + r) 0 rs / real (length rs)"

definition varianceOf :: "decimal list \<Rightarrow> decimal" where
  "varianceOf rs =
     foldl (\<lambda>sum r. sum + (r - meanOf rs)\<^sup>2) 0 rs / real (length rs)"

text \<open>\<^verbatim>\<open>calculateVolatility(prices, _window = 20)\<close>; the body never reads \<^verbatim>\<open>_window\<close>.\<close>

definition calculateVolatility :: "decimal list \<Rightarrow> nat \<Rightarrow> decimal" where
  "calculateVolatility prices window =
     (if length prices < 2 then 0
      else
        let returns = simpleReturns prices
        in if returns = [] then 0 else sqrt (varianceOf returns))"

subsection \<open>The stores\<close>

text \<open>\<^verbatim>\<open>arr.slice(-limit)\<close>: the last \<open>limit\<close> elements; \<^verbatim>\<open>slice(-0)\<close> is the whole array.\<close>

definition sliceLast :: "'a list \<Rightarrow> nat \<Rightarrow> 'a list" where
  "sliceLast xs limit = (if limit = 0 then xs else drop (length xs - limit) xs)"

text \<open>\<^verbatim>\<open>arr.shift()\<close> drops the first element.\<close>

definition shift :: "'a list \<Rightarrow> 'a list" where
  "shift xs = tl xs"

record OrderBookStore =
  books :: "string \<rightharpoonup> MarketBook"
  topN :: nat

record TradeTapeStore =
  trades :: "string \<rightharpoonup> TradeRecord list"
  maxTradesPerToken :: nat

definition obs_update :: "OrderBookStore \<Rightarrow> string \<Rightarrow> MarketBook \<Rightarrow> OrderBookStore" where
  "obs_update s tok b =
     (let trimmedBook = b\<lparr> mb_bids := take (topN s) (mb_bids b),
                            mb_asks := take (topN s) (mb_asks b) \<rparr>
      in s\<lparr> books := (books s)(tok \<mapsto> trimmedBook) \<rparr>)"

definition obs_get :: "OrderBookStore \<Rightarrow> string \<Rightarrow> MarketBook option" where
  "obs_get s tok = books s tok"

definition tts_add :: "TradeTapeStore \<Rightarrow> TradeRecord \<Rightarrow> TradeTapeStore" where
  "tts_add s trade =
     (let tokenTrades = (case trades s (tr_tokenId trade) of None \<Rightarrow> [] | Some ts \<Rightarrow> ts);
          pushed = tokenTrades @ [trade];
          kept = (if length pushed > maxTradesPerToken s then shift pushed else pushed)
      in s\<lparr> trades := (trades s)(tr_tokenId trade \<mapsto> kept) \<rparr>)"

definition tts_get :: "TradeTapeStore \<Rightarrow> string \<Rightarrow> nat \<Rightarrow> TradeRecord list" where
  "tts_get s tok limit =
     sliceLast (case trades s tok of None \<Rightarrow> [] | Some ts \<Rightarrow> ts) limit"

text \<open>The state store, without the market universe (which none of these operations touch).\<close>

record MarketStateStore =
  orderBookStore :: OrderBookStore
  tradeTapeStore :: TradeTapeStore
  emas :: "string \<rightharpoonup> EMA"
  priceHistory :: "string \<rightharpoonup> decimal list"
  emaPeriod :: nat
  volWindow :: nat

definition newMarketStateStore :: MarketStateStore where
  "newMarketStateStore =
     \<lparr> orderBookStore = \<lparr> books = Map.empty, topN = 20 \<rparr>,
       tradeTapeStore = \<lparr> trades = Map.empty, maxTradesPerToken = 1000 \<rparr>,
       emas = Map.empty,
       priceHistory = Map.empty,
       emaPeriod = 20,
       volWindow = 20 \<rparr>"

definition updateOrderBook :: "MarketStateStore \<Rightarrow> string \<Rightarrow> MarketBook \<Rightarrow> MarketStateStore" where
  "updateOrderBook st tok b = st\<lparr> orderBookStore := obs_update (orderBookStore st) tok b \<rparr>"

definition getOrderBook :: "MarketStateStore \<Rightarrow> string \<Rightarrow> MarketBook option" where
  "getOrderBook st tok = obs_get (orderBookStore st) tok"

definition addTrade :: "MarketStateStore \<Rightarrow> TradeRecord \<Rightarrow> MarketStateStore" where
  "addTrade st trade =
     (let tape = tts_add (tradeTapeStore st) trade;
          history = (case priceHistory st (tr_tokenId trade) of None \<Rightarrow> [] | Some h \<Rightarrow> h);
          pushed = history @ [tr_price trade];
          kept = (if length pushed > volWindow st * 2 then shift pushed else pushed)
      in st\<lparr> tradeTapeStore := tape,
             priceHistory := (priceHistory st)(tr_tokenId trade \<mapsto> kept) \<rparr>)"

definition getTrades :: "MarketStateStore \<Rightarrow> string \<Rightarrow> nat \<Rightarrow> TradeRecord list" where
  "getTrades st tok limit = tts_get (tradeTapeStore st) tok limit"

definition depthOf :: "PriceLevel list \<Rightarrow> decimal" where
  "depthOf levels = foldl (\<lambda>sum level. sum + psize level) 0 levels"

text \<open>
  The EMA step of \<^verbatim>\<open>getDerivedFeatures\<close>: with a non-empty tape it creates the token's
  EMA object when there is none, and updates it with the latest trade price.
\<close>

definition emaStep ::
  "MarketStateStore \<Rightarrow> string \<Rightarrow> TradeRecord list \<Rightarrow> decimal option \<times> (string \<rightharpoonup> EMA)" where
  "emaStep st tok ts =
     (if ts = [] then (None, emas st)
      else
        let latestPrice = tr_price (last ts);
            emaInstance = (case emas st tok of None \<Rightarrow> newEMA (emaPeriod st) | Some e \<Rightarrow> e);
            r = ema_update emaInstance latestPrice
        in (Some (fst r), (emas st)(tok \<mapsto> snd r)))"

text \<open>
  \<^verbatim>\<open>getDerivedFeatures(tokenId)\<close> returns the features and the store after the call;
  \<open>now\<close> is the \<^verbatim>\<open>new Date()\<close> of the branch without a book.  \<^verbatim>\<open>midPrice && spread\<close>
  tests two objects, so it holds exactly when neither is \<^verbatim>\<open>null\<close>.
\<close>

definition getDerivedFeatures ::
  "MarketStateStore \<Rightarrow> string \<Rightarrow> date \<Rightarrow> DerivedFeatures \<times> MarketStateStore" where
  "getDerivedFeatures st tok now =
     (let ts = getTrades st tok (volWindow st) in
      case getOrderBook st tok of
        None \<Rightarrow>
          (\<lparr> midPrice = None, spread = None, spreadBps = None, bidDepth = 0, askDepth = 0,
             ema = None, ewmaVol = None, df_lastUpdate = now \<rparr>, st)
      | Some b \<Rightarrow>
          (let mid = calculateMidPrice b;
               spr = calculateSpread b;
               bps = (case mid of
                        None \<Rightarrow> None
                      | Some m \<Rightarrow> (case spr of None \<Rightarrow> None | Some s \<Rightarrow> Some (s / m * 10000)));
               e = emaStep st tok ts;
               vol = (case priceHistory st tok of
                        None \<Rightarrow> None
                      | Some history \<Rightarrow>
                          (if length history \<ge> 2
                           then Some (calculateVolatility history (volWindow st))
                           else None))
           in (\<lparr> midPrice = mid, spread = spr, spreadBps = bps,
                 bidDepth = depthOf (mb_bids b), askDepth = depthOf (mb_asks b),
                 ema = fst e, ewmaVol = vol, df_lastUpdate = mb_timestamp b \<rparr>,
               st\<lparr> emas := snd e \<rparr>)))"

text \<open>
  The volatility in the specification's words: the standard deviation of the simple
  returns over the most recent \<open>window\<close> samples only.
\<close>

definition windowVolatility :: "decimal list \<Rightarrow> nat \<Rightarrow> decimal" where
  "windowVolatility prices window =
     (let returns = simpleReturns (sliceLast prices window)
      in if returns = [] then 0 else sqrt (varianceOf returns))"

section \<open>The paper execution simulator (paper-execution-sim.ts)\<close>

record ExecOrder =
  o_id :: string
  o_tokenId :: string
  o_side :: OrderSide
  o_price :: decimal
  o_size :: decimal
  o_type :: OrderType
  o_timestamp :: date
  o_reason :: "string option"

record Fill =
  f_id :: string
  f_orderId :: string
  f_tokenId :: string
  f_side :: OrderSide
  f_price :: decimal
  f_size :: decimal
  slippage :: decimal
  spreadPaid :: decimal
  fee :: decimal
  f_timestamp :: date

record PaperExecutionSimConfig =
  feeRate :: decimal
  fillProbability :: decimal

text \<open>
  What the simulator reads from outside: the successive values of \<^verbatim>\<open>Math.random()\<close>,
  of \<^verbatim>\<open>randomUUID()\<close> and of \<^verbatim>\<open>new Date()\<close>, each a stream with the number of values
  read so far.
\<close>

record World =
  randoms :: "nat \<Rightarrow> real"
  uuids :: "nat \<Rightarrow> string"
  dates :: "nat \<Rightarrow> date"
  nRandom :: nat
  nUuid :: nat
  nDate :: nat

definition Math_random :: "World \<Rightarrow> real \<times> World" where
  "Math_random w = (randoms w (nRandom w), w\<lparr> nRandom := nRandom w + 1 \<rparr>)"

definition randomUUID :: "World \<Rightarrow> string \<times> World" where
  "randomUUID w = (uuids w (nUuid w), w\<lparr> nUuid := nUuid w + 1 \<rparr>)"

definition newDate :: "World \<Rightarrow> date \<times> World" where
  "newDate w = (dates w (nDate w), w\<lparr> nDate := nDate w + 1 \<rparr>)"

text \<open>
  An order is a JavaScript object: \<^verbatim>\<open>placeOrder\<close> stores the caller's object, not a
  copy, and \<^verbatim>\<open>processMarketUpdate\<close> writes \<^verbatim>\<open>order.size\<close> on it.  So the orders live in
  an object store, shared by every holder of a reference, and the open orders are a
  \<^verbatim>\<open>Map\<close> from order id to reference, iterated in insertion order.
\<close>

type_synonym ref = nat
type_synonym objects = "ref \<Rightarrow> ExecOrder"

record PaperExecutionSim =
  openOrders :: "(string \<times> ref) list"
  sim_config :: PaperExecutionSimConfig
  fills :: "Fill list"

definition newPaperExecutionSim :: "PaperExecutionSimConfig \<Rightarrow> PaperExecutionSim" where
  "newPaperExecutionSim cfg = \<lparr> openOrders = [], sim_config = cfg, fills = [] \<rparr>"

text \<open>\<^verbatim>\<open>placeOrder(intent)\<close> files the reference under the id the object has at that time.\<close>

definition placeOrder :: "PaperExecutionSim \<Rightarrow> objects \<Rightarrow> ref \<Rightarrow> PaperExecutionSim" where
  "placeOrder sim h intent =
     sim\<lparr> openOrders := map_set (o_id (h intent)) intent (openOrders sim) \<rparr>"


definition createFill ::
  "PaperExecutionSimConfig \<Rightarrow> ExecOrder \<Rightarrow> decimal \<Rightarrow> decimal \<Rightarrow> decimal \<Rightarrow> decimal \<Rightarrow> World
     \<Rightarrow> Fill \<times> World" where
  "createFill cfg order p sz slip spr w =
     (let fee' = p * sz * feeRate cfg;
          u = randomUUID w;
          d = newDate (snd u)
      in (\<lparr> f_id = fst u, f_orderId = o_id order, f_tokenId = o_tokenId order,
            f_side = o_side order, f_price = p, f_size = sz,
            slippage = \<bar>slip\<bar>, spreadPaid = \<bar>spr\<bar>, fee = fee', f_timestamp = fst d \<rparr>,
          snd d))"

definition fillMarketOrder ::
  "PaperExecutionSimConfig \<Rightarrow> ExecOrder \<Rightarrow> MarketBook \<Rightarrow> World \<Rightarrow> Fill option \<times> World" where
  "fillMarketOrder cfg order b w =
     (case o_side order of
        Buy \<Rightarrow>
          (case mb_asks b of
             [] \<Rightarrow> (None, w)
           | bestAsk # _ \<Rightarrow>
               (let fillPrice = price bestAsk;
                    fillSize = min (o_size order) (psize bestAsk);
                    mid = calculateMidPrice b;
                    slip = (case mid of None \<Rightarrow> 0 | Some m \<Rightarrow> fillPrice - m);
                    spr = (case mid of None \<Rightarrow> 0 | Some m \<Rightarrow> fillPrice - m);
                    r = createFill cfg order fillPrice fillSize slip spr w
                in (Some (fst r), snd r)))
      | Sell \<Rightarrow>
          (case mb_bids b of
             [] \<Rightarrow> (None, w)
           | bestBid # _ \<Rightarrow>
               (let fillPrice = price bestBid;
                    fillSize = min (o_size order) (psize bestBid);
                    mid = calculateMidPrice b;
                    slip = (case mid of None \<Rightarrow> 0 | Some m \<Rightarrow> m - fillPrice);
                    spr = (case mid of None \<Rightarrow> 0 | Some m \<Rightarrow> m - fillPrice);
                    r = createFill cfg order fillPrice fillSize slip spr w
                in (Some (fst r), snd r))))"

text \<open>
  The test of the first part of \<^verbatim>\<open>fillLimitOrder\<close>: the order crosses the spread when
  the opposing side is non-empty and the limit reaches its best price.
\<close>

definition crossesSpread :: "ExecOrder \<Rightarrow> MarketBook \<Rightarrow> bool" where
  "crossesSpread order b =
     (case o_side order of
        Buy \<Rightarrow> (case mb_asks b of [] \<Rightarrow> False | bestAsk # _ \<Rightarrow> o_price order \<ge> price bestAsk)
      | Sell \<Rightarrow> (case mb_bids b of [] \<Rightarrow> False | bestBid # _ \<Rightarrow> o_price order \<le> price bestBid))"

text \<open>\<^verbatim>\<open>wouldFill\<close>: the trade print is at or through the limit.\<close>

definition wouldFill :: "ExecOrder \<Rightarrow> TradeRecord \<Rightarrow> bool" where
  "wouldFill order trade =
     (case o_side order of
        Buy \<Rightarrow> tr_price trade \<le> o_price order
      | Sell \<Rightarrow> tr_price trade \<ge> o_price order)"

text \<open>
  The second part of \<^verbatim>\<open>fillLimitOrder\<close>.  \<^verbatim>\<open>wouldFill && Math.random() < p\<close> draws
  only when \<^verbatim>\<open>wouldFill\<close> holds.
\<close>

definition passiveFill ::
  "PaperExecutionSimConfig \<Rightarrow> ExecOrder \<Rightarrow> decimal \<Rightarrow> TradeRecord option \<Rightarrow> World
     \<Rightarrow> Fill option \<times> World" where
  "passiveFill cfg order mid trade w =
     (case trade of
        None \<Rightarrow> (None, w)
      | Some t \<Rightarrow>
          (if wouldFill order t
           then
             (let d = Math_random w in
              if fst d < fillProbability cfg
              then
                (let fillPrice = o_price order;
                     fillSize = o_size order;
                     slip = (case o_side order of
                               Buy \<Rightarrow> fillPrice - mid
                             | Sell \<Rightarrow> mid - fillPrice);
                     r = createFill cfg order fillPrice fillSize slip 0 (snd d)
                 in (Some (fst r), snd r))
              else (None, snd d))
           else (None, w)))"

definition fillLimitOrder ::
  "PaperExecutionSimConfig \<Rightarrow> ExecOrder \<Rightarrow> MarketBook \<Rightarrow> TradeRecord option \<Rightarrow> World
     \<Rightarrow> Fill option \<times> World" where
  "fillLimitOrder cfg order b trade w =
     (case calculateMidPrice b of
        None \<Rightarrow> (None, w)
      | Some mid \<Rightarrow>
          (case o_side order of
             Buy \<Rightarrow>
               (case mb_asks b of
                  [] \<Rightarrow> passiveFill cfg order mid trade w
                | bestAsk # _ \<Rightarrow>
                    (if o_price order \<ge> price bestAsk
                     then
                       (let fillPrice = price bestAsk;
                            fillSize = min (o_size order) (psize bestAsk);
                            r = createFill cfg order fillPrice fillSize
                                  (fillPrice - mid) (fillPrice - mid) w
                        in (Some (fst r), snd r))
                     else passiveFill cfg order mid trade w))
           | Sell \<Rightarrow>
               (case mb_bids b of
                  [] \<Rightarrow> passiveFill cfg order mid trade w
                | bestBid # _ \<Rightarrow>
                    (if o_price order \<le> price bestBid
                     then
                       (let fillPrice = price bestBid;
                            fillSize = min (o_size order) (psize bestBid);
                            r = createFill cfg order fillPrice fillSize
                                  (mid - fillPrice) (mid - fillPrice) w
                        in (Some (fst r), snd r))
                     else passiveFill cfg order mid trade w))))"

definition attemptFill ::
  "PaperExecutionSimConfig \<Rightarrow> ExecOrder \<Rightarrow> MarketBook \<Rightarrow> TradeRecord option \<Rightarrow> World
     \<Rightarrow> Fill option \<times> World" where
  "attemptFill cfg order b trade w =
     (case o_type order of
        Market \<Rightarrow> fillMarketOrder cfg order b w
      | Limit \<Rightarrow> fillLimitOrder cfg order b trade w)"

text \<open>
  The result of the loop of \<^verbatim>\<open>processMarketUpdate\<close> over the entries of the map: the
  new fills, the ids to remove, the object store with the sizes the loop has written,
  and the world after the loop.  Each entry is read from the store when the loop
  reaches it.
\<close>

record LoopResult =
  newFills :: "Fill list"
  ordersToRemove :: "string list"
  store :: objects
  world :: World

fun processOrders ::
  "PaperExecutionSimConfig \<Rightarrow> string \<Rightarrow> MarketBook \<Rightarrow> TradeRecord option
     \<Rightarrow> (string \<times> ref) list \<Rightarrow> objects \<Rightarrow> World \<Rightarrow> LoopResult" where
  "processOrders cfg tok b trade [] h w =
     \<lparr> newFills = [], ordersToRemove = [], store = h, world = w \<rparr>"
| "processOrders cfg tok b trade ((orderId, p) # rest) h w =
     (let order = h p in
      if o_tokenId order \<noteq> tok
      then processOrders cfg tok b trade rest h w
      else
        (case attemptFill cfg order b trade w of
           (None, w1) \<Rightarrow> processOrders cfg tok b trade rest h w1
         | (Some fill, w1) \<Rightarrow>
             (let remainingSize = o_size order - f_size fill
              in if remainingSize \<le> 0
                 then
                   (let r = processOrders cfg tok b trade rest h w1
                    in r\<lparr> newFills := fill # newFills r,
                            ordersToRemove := orderId # ordersToRemove r \<rparr>)
                 else
                   (let r = processOrders cfg tok b trade rest
                              (h(p := order\<lparr> o_size := remainingSize \<rparr>)) w1
                    in r\<lparr> newFills := fill # newFills r \<rparr>))))"

text \<open>
  \<^verbatim>\<open>processMarketUpdate\<close> returns the new fills, the simulator, the object store and the
  world after it.
\<close>

definition processMarketUpdate ::
  "PaperExecutionSim \<Rightarrow> string \<Rightarrow> MarketBook \<Rightarrow> TradeRecord option \<Rightarrow> objects \<Rightarrow> World
     \<Rightarrow> Fill list \<times> PaperExecutionSim \<times> objects \<times> World" where
  "processMarketUpdate sim tok b trade h w =
     (let r = processOrders (sim_config sim) tok b trade (openOrders sim) h w;
          remaining =
            foldl (\<lambda>m orderId. map_delete orderId m) (openOrders sim) (ordersToRemove r)
      in (newFills r,
          sim\<lparr> openOrders := remaining, fills := fills sim @ newFills r \<rparr>,
          store r,
          world r))"







text \<open>
  The fills that the entries \<open>es\<close> contribute to one market update, and the object store
  and the world after them.
\<close>

definition fillsOf ::
  "PaperExecutionSimConfig \<Rightarrow> string \<Rightarrow> MarketBook \<Rightarrow> TradeRecord option
     \<Rightarrow> (string \<times> ref) list \<Rightarrow> objects \<Rightarrow> World \<Rightarrow> Fill list" where
  "fillsOf cfg tok b trade es h w = newFills (processOrders cfg tok b trade es h w)"

definition storeAfter ::
  "PaperExecutionSimConfig \<Rightarrow> string \<Rightarrow> MarketBook \<Rightarrow> TradeRecord option
     \<Rightarrow> (string \<times> ref) list \<Rightarrow> objects \<Rightarrow> World \<Rightarrow> objects" where
  "storeAfter cfg tok b trade es h w = store (processOrders cfg tok b trade es h w)"

definition worldAfter ::
  "PaperExecutionSimConfig \<Rightarrow> string \<Rightarrow> MarketBook \<Rightarrow> TradeRecord option
     \<Rightarrow> (string \<times> ref) list \<Rightarrow> objects \<Rightarrow> World \<Rightarrow> World" where
  "worldAfter cfg tok b trade es h w = world (processOrders cfg tok b trade es h w)"

section \<open>Auxiliary notions for the proofs\<close>

text \<open>
  The price map of \<^verbatim>\<open>applyLevels\<close> is well keyed when its keys are distinct and every
  entry sits under the price of its level.
\<close>

definition keyed :: "(decimal \<times> PriceLevel) list \<Rightarrow> bool" where
  "keyed m = (distinct (map fst m) \<and> (\<forall>e\<in>set m. fst e = price (snd e)))"

definition posVals :: "(decimal \<times> PriceLevel) list \<Rightarrow> bool" where
  "posVals m = (\<forall>e\<in>set m. 0 < psize (snd e))"


section \<open>Sample data\<close>





text \<open>
  The two-level book of the simulator's tests, trades on it, a store whose price history
  is a jump from 1 to 2 followed by twenty more trades at 2, and a store whose EMA was
  seeded at \<open>0.5\<close> before a trade at \<open>0.6\<close> arrived.
\<close>

definition sampleBook :: MarketBook where
  "sampleBook =
     \<lparr> mb_tokenId = ''token-1'',
       mb_bids = [\<lparr> price = 49 / 100, psize = 100 \<rparr>, \<lparr> price = 48 / 100, psize = 200 \<rparr>],
       mb_asks = [\<lparr> price = 51 / 100, psize = 150 \<rparr>, \<lparr> price = 52 / 100, psize = 250 \<rparr>],
       mb_timestamp = 1000, mb_sequence = None \<rparr>"

definition tradeAt :: "decimal \<Rightarrow> TradeRecord" where
  "tradeAt p = \<lparr> tr_tokenId = ''token-1'', tr_price = p, tr_size = 10, tr_side = Buy,
                 tr_timestamp = 1000 \<rparr>"

definition jumpPrices :: "decimal list" where
  "jumpPrices = [1, 2, 2, 2, 2, 2, 2, 2, 2, 2, 2, 2, 2, 2, 2, 2, 2, 2, 2, 2, 2, 2]"

definition jumpStore :: MarketStateStore where
  "jumpStore =
     foldl addTrade (updateOrderBook newMarketStateStore ''token-1'' sampleBook)
       (map tradeAt jumpPrices)"

definition emaStore :: MarketStateStore where
  "emaStore =
     addTrade
       (snd (getDerivedFeatures
               (addTrade (updateOrderBook newMarketStateStore ''token-1'' sampleBook)
                  (tradeAt (1 / 2)))
               ''token-1'' 0))
       (tradeAt (3 / 5))"

text \<open>
  The tests' configuration; an object store in which every reference holds the given
  order, and one holding a market buy at reference 0 and a passive limit buy at \<open>0.495\<close>
  elsewhere; a simulator in which reference 0 has been placed; the sample book with one
  side emptied; two worlds with the same random draws (always \<open>0.25\<close>) but different
  ids and clocks; a short run that places references 0 and 1 and processes a market
  update with a trade print at \<open>0.49\<close>; and a run that places one market buy of 200 and
  processes an update of the sample book.
\<close>

definition sampleConfig :: PaperExecutionSimConfig where
  "sampleConfig = \<lparr> feeRate = 2 / 100, fillProbability = 1 / 2 \<rparr>"

definition orderOf :: "string \<Rightarrow> OrderSide \<Rightarrow> OrderType \<Rightarrow> decimal \<Rightarrow> decimal \<Rightarrow> ExecOrder" where
  "orderOf i sd ty p sz =
     \<lparr> o_id = i, o_tokenId = ''token-1'', o_side = sd, o_price = p, o_size = sz,
       o_type = ty, o_timestamp = 1000, o_reason = None \<rparr>"

definition storeOf :: "ExecOrder \<Rightarrow> objects" where
  "storeOf x = (\<lambda>p. x)"


definition simWith :: "ExecOrder \<Rightarrow> PaperExecutionSim" where
  "simWith x = placeOrder (newPaperExecutionSim sampleConfig) (storeOf x) 0"

definition askOnlyBook :: MarketBook where
  "askOnlyBook = sampleBook\<lparr> mb_bids := [] \<rparr>"

definition bidOnlyBook :: MarketBook where
  "bidOnlyBook = sampleBook\<lparr> mb_asks := [] \<rparr>"

definition worldA :: World where
  "worldA = \<lparr> randoms = (\<lambda>n. 1 / 4), uuids = (\<lambda>n. ''a''), dates = (\<lambda>n. 1),
              nRandom = 0, nUuid = 0, nDate = 0 \<rparr>"





section \<open>Order book: the price map and the sort\<close>

lemma map_set_fst: "fst ` set (map_set k v m) = insert k (fst ` set m)"
proof (induction m)
  case Nil then show ?case by simp
next
  case (Cons e m)
  obtain k' v' where e: "e = (k', v')" by (cases e)
  show ?case
  proof (cases "k' = k")
    case True with e show ?thesis by simp
  next
    case False with e Cons.IH show ?thesis by (simp add: insert_commute)
  qed
qed

lemma map_set_distinct: "distinct (map fst m) \<Longrightarrow> distinct (map fst (map_set k v m))"
proof (induction m)
  case Nil then show ?case by simp
next
  case (Cons e m)
  obtain k' v' where e: "e = (k', v')" by (cases e)
  show ?case
  proof (cases "k' = k")
    case True with Cons.prems e show ?thesis by simp
  next
    case False
    have "k' \<notin> fst ` set (map_set k v m)"
      using Cons.prems e False unfolding map_set_fst by simp
    with Cons e False show ?thesis by simp
  qed
qed

lemma map_set_subset: "set (map_set k v m) \<subseteq> insert (k, v) (set m)"
  by (induction m) (auto split: if_splits)

lemma keyed_map_set: "keyed m \<Longrightarrow> keyed (map_set (price l) l m)"
  unfolding keyed_def using map_set_distinct map_set_subset
  by (metis (no_types, lifting) fst_conv insert_iff snd_conv subsetD)

lemma keyed_map_delete: "keyed m \<Longrightarrow> keyed (map_delete k m)"
  unfolding keyed_def map_delete_def by (auto simp: distinct_map_filter)

lemma keyed_applyUpdate: "keyed m \<Longrightarrow> keyed (applyUpdate m u)"
  by (simp add: applyUpdate_def keyed_map_set keyed_map_delete)

lemma keyed_foldl_applyUpdate: "keyed m \<Longrightarrow> keyed (foldl applyUpdate m us)"
  by (induction us arbitrary: m) (simp_all add: keyed_applyUpdate)

lemma keyed_foldl_set: "keyed m \<Longrightarrow> keyed (foldl (\<lambda>m level. map_set (price level) level m) m ls)"
  by (induction ls arbitrary: m) (simp_all add: keyed_map_set)

lemma keyed_addExisting: "keyed (addExisting ls)"
  unfolding addExisting_def by (rule keyed_foldl_set) (simp add: keyed_def)

lemma keyed_prices: "keyed m \<Longrightarrow> map price (map_values m) = map fst m"
  unfolding keyed_def map_values_def by (induction m) auto

lemma keyed_values_distinct: "keyed m \<Longrightarrow> distinct (map price (map_values m))"
  using keyed_prices by (simp add: keyed_def)

lemma distinct_map_insort_key:
  "distinct (map f (insort_key g x ys)) = (f x \<notin> f ` set ys \<and> distinct (map f ys))"
  by (induction ys) (auto simp: set_insort_key)

lemma distinct_map_sort_key: "distinct (map f (sort_key g xs)) = distinct (map f xs)"
  by (induction xs) (simp_all add: distinct_map_insort_key)

lemma sortLevels_asc: "distinct (map price ls) \<Longrightarrow> asksOrdered (sortLevels Asc ls)"
proof -
  assume d: "distinct (map price ls)"
  have "sorted (map price (sort_key price ls))" by (rule sorted_sort_key)
  moreover have "distinct (map price (sort_key price ls))"
    using d by (simp add: distinct_map_sort_key)
  ultimately have "sorted_wrt (<) (map price (sort_key price ls))"
    by (simp add: strict_sorted_iff)
  then show ?thesis
    using d by (simp add: asksOrdered_def sortLevels_def distinct_map_sort_key)
qed

lemma sorted_wrt_neg: "sorted_wrt (<) (map uminus xs) = sorted_wrt (\<lambda>a b. a > b) (xs::real list)"
  by (simp add: sorted_wrt_map)

lemma sortLevels_desc: "distinct (map price ls) \<Longrightarrow> bidsOrdered (sortLevels Desc ls)"
proof -
  assume d: "distinct (map price ls)"
  let ?ys = "sort_key (\<lambda>l. - price l) ls"
  have s: "sorted (map (\<lambda>l. - price l) ?ys)" by (rule sorted_sort_key)
  have dy: "distinct (map price ?ys)"
    using d by (simp add: distinct_map_sort_key)
  have "distinct (map uminus (map price ?ys))"
    using dy by (simp add: distinct_map inj_on_def)
  moreover have "sorted (map uminus (map price ?ys))"
    using s by (simp add: comp_def)
  ultimately have "sorted_wrt (<) (map uminus (map price ?ys))"
    by (simp add: strict_sorted_iff)
  then have "sorted_wrt (\<lambda>a b. a > b) (map price ?ys)"
    by (simp only: sorted_wrt_neg)
  then show ?thesis
    using dy by (simp add: bidsOrdered_def sortLevels_def)
qed

lemma applyLevels_asc: "asksOrdered (applyLevels existing updates Asc)"
  unfolding applyLevels_def
  by (intro sortLevels_asc keyed_values_distinct keyed_foldl_applyUpdate keyed_addExisting)

lemma applyLevels_desc: "bidsOrdered (applyLevels existing updates Desc)"
  unfolding applyLevels_def
  by (intro sortLevels_desc keyed_values_distinct keyed_foldl_applyUpdate keyed_addExisting)

lemma posVals_map_set: "posVals m \<Longrightarrow> 0 < psize l \<Longrightarrow> posVals (map_set k l m)"
  unfolding posVals_def using map_set_subset[of k l m] by auto

lemma posVals_map_delete: "posVals m \<Longrightarrow> posVals (map_delete k m)"
  unfolding posVals_def map_delete_def by auto

lemma posVals_applyUpdate: "posVals m \<Longrightarrow> posVals (applyUpdate m u)"
  by (simp add: applyUpdate_def posVals_map_set posVals_map_delete)

lemma posVals_foldl_applyUpdate: "posVals m \<Longrightarrow> posVals (foldl applyUpdate m us)"
  by (induction us arbitrary: m) (simp_all add: posVals_applyUpdate)

lemma posVals_foldl_set:
  "posVals m \<Longrightarrow> sizesPositive ls \<Longrightarrow>
     posVals (foldl (\<lambda>m level. map_set (price level) level m) m ls)"
  by (induction ls arbitrary: m) (simp_all add: posVals_map_set sizesPositive_def)

lemma posVals_addExisting: "sizesPositive ls \<Longrightarrow> posVals (addExisting ls)"
  unfolding addExisting_def by (rule posVals_foldl_set) (simp_all add: posVals_def)

lemma sizesPositive_sortLevels: "sizesPositive (sortLevels ord ls) = sizesPositive ls"
  by (cases ord) (simp_all add: sortLevels_def sizesPositive_def list_all_iff)

lemma sizesPositive_applyLevels:
  "sizesPositive existing \<Longrightarrow> sizesPositive (applyLevels existing updates ord)"
proof -
  assume "sizesPositive existing"
  then have "posVals (foldl applyUpdate (addExisting existing) updates)"
    by (intro posVals_foldl_applyUpdate posVals_addExisting)
  then have "sizesPositive (map_values (foldl applyUpdate (addExisting existing) updates))"
    by (simp add: posVals_def sizesPositive_def map_values_def list_all_iff)
  then show ?thesis by (simp add: applyLevels_def sizesPositive_sortLevels)
qed

lemma applyDelta_sidesOrdered:
  "sidesOrdered st \<Longrightarrow> sidesOrdered (applyDelta st bu au seq now)"
  by (cases seq)
     (auto simp: applyDelta_def Let_def sidesOrdered_def applyLevels_asc applyLevels_desc)

lemma applyDelta_allSizesPositive:
  "allSizesPositive st \<Longrightarrow> allSizesPositive (applyDelta st bu au seq now)"
  by (cases seq)
     (auto simp: applyDelta_def Let_def allSizesPositive_def sizesPositive_applyLevels)

lemma applyDeltas_sidesOrdered: "sidesOrdered st \<Longrightarrow> sidesOrdered (applyDeltas st ds)"
  unfolding applyDeltas_def
  by (induction ds arbitrary: st) (simp_all add: applyDelta_sidesOrdered)

lemma applyDeltas_allSizesPositive:
  "allSizesPositive st \<Longrightarrow> allSizesPositive (applyDeltas st ds)"
  unfolding applyDeltas_def
  by (induction ds arbitrary: st) (simp_all add: applyDelta_allSizesPositive)

section \<open>Order book: stale deltas\<close>

text \<open>
  C3.  When the book has a last applied sequence \<open>s\<close>, a delta that carries a sequence
  number \<open>q \<le> s\<close> leaves the whole state as it was: both sides, the stored sequence, the
  \<^verbatim>\<open>lastUpdate\<close> time stamp and the remembered last sequence.
\<close>

theorem applyDelta_stale_unchanged:
  "lastSequence st = Some s \<Longrightarrow> q \<le> s \<Longrightarrow>
     applyDelta st bidUpdates askUpdates (Some q) now = st"
  by (simp add: applyDelta_def isStale_def)

text \<open>
  The book built from a snapshot with sequence 7 drops a delta numbered 7 that would
  otherwise replace the best bid.
\<close>

theorem applyDelta_stale_unchanged_witness:
  "applyDelta
     (newInMemoryOrderBook
        \<lparr> marketId = ''m'', tokenId = ''t'',
          bids = [\<lparr> price = 49 / 100, psize = 100 \<rparr>],
          asks = [\<lparr> price = 51 / 100, psize = 150 \<rparr>],
          lastUpdate = 1000, sequence = Some 7 \<rparr>)
     [\<lparr> price = 49 / 100, psize = 0 \<rparr>] [] (Some 7) 2000
   = newInMemoryOrderBook
        \<lparr> marketId = ''m'', tokenId = ''t'',
          bids = [\<lparr> price = 49 / 100, psize = 100 \<rparr>],
          asks = [\<lparr> price = 51 / 100, psize = 150 \<rparr>],
          lastUpdate = 1000, sequence = Some 7 \<rparr>"
  by (rule applyDelta_stale_unchanged [where s = 7]) (simp_all add: newInMemoryOrderBook_def)

section \<open>Order book: side ordering\<close>

text \<open>
  C4 as stated fails on the sizes: a level that the starting book stores with size \<open>0\<close>
  stays in the book, since only an update for its price can remove it.
\<close>

theorem side_ordering_counterexample:
  "sidesOrdered
     (newInMemoryOrderBook
        \<lparr> marketId = ''m'', tokenId = ''t'',
          bids = [\<lparr> price = 1 / 2, psize = 0 \<rparr>], asks = [],
          lastUpdate = 0, sequence = None \<rparr>)
   \<and> \<not> allSizesPositive
     (applyDeltas
        (newInMemoryOrderBook
           \<lparr> marketId = ''m'', tokenId = ''t'',
             bids = [\<lparr> price = 1 / 2, psize = 0 \<rparr>], asks = [],
             lastUpdate = 0, sequence = None \<rparr>)
        [\<lparr> d_bids = [], d_asks = [\<lparr> price = 3 / 5, psize = 10 \<rparr>],
           d_sequence = Some 1, d_now = 1 \<rparr>])"
  by (simp add: newInMemoryOrderBook_def sidesOrdered_def bidsOrdered_def asksOrdered_def
        allSizesPositive_def sizesPositive_def applyDeltas_def applyDelta_def isStale_def
        applyLevels_def addExisting_def applyUpdate_def sortLevels_def map_values_def
        map_delete_def)

text \<open>
  C4, amended.  From a book whose bids are strictly descending and whose asks are
  strictly ascending by price (so prices are unique per side), any sequence of
  \<^verbatim>\<open>applyDelta\<close> calls, with or without sequence numbers, leaves the bids strictly
  descending and the asks strictly ascending with unique prices; and if every size the
  starting book stores is positive, every size stored afterwards is positive.  Each side
  is ordered on its own: nothing relates the bids to the asks.
\<close>

theorem applyDeltas_side_ordering:
  "(sidesOrdered st \<longrightarrow> sidesOrdered (applyDeltas st ds)) \<and>
   (allSizesPositive st \<longrightarrow> allSizesPositive (applyDeltas st ds))"
  by (simp add: applyDeltas_sidesOrdered applyDeltas_allSizesPositive)

text \<open>
  A crossed book (best bid \<open>0.6\<close> above best ask \<open>0.5\<close>) satisfies both hypotheses, so
  it stays ordered per side and positive through two deltas, the second one stale; and
  it is still crossed afterwards, with best bid \<open>0.62\<close> against best ask \<open>0.5\<close>.
\<close>

theorem applyDeltas_side_ordering_witness:
  "sidesOrdered
     (applyDeltas
        (newInMemoryOrderBook
           \<lparr> marketId = ''m'', tokenId = ''t'',
             bids = [\<lparr> price = 3 / 5, psize = 10 \<rparr>, \<lparr> price = 2 / 5, psize = 5 \<rparr>],
             asks = [\<lparr> price = 1 / 2, psize = 20 \<rparr>],
             lastUpdate = 0, sequence = Some 3 \<rparr>)
        [\<lparr> d_bids = [\<lparr> price = 31 / 50, psize = 7 \<rparr>, \<lparr> price = 2 / 5, psize = 0 \<rparr>],
           d_asks = [\<lparr> price = 11 / 20, psize = 1 \<rparr>], d_sequence = Some 4, d_now = 1 \<rparr>,
         \<lparr> d_bids = [\<lparr> price = 3 / 5, psize = 0 \<rparr>], d_asks = [],
           d_sequence = Some 2, d_now = 2 \<rparr>])
   \<and> allSizesPositive
     (applyDeltas
        (newInMemoryOrderBook
           \<lparr> marketId = ''m'', tokenId = ''t'',
             bids = [\<lparr> price = 3 / 5, psize = 10 \<rparr>, \<lparr> price = 2 / 5, psize = 5 \<rparr>],
             asks = [\<lparr> price = 1 / 2, psize = 20 \<rparr>],
             lastUpdate = 0, sequence = Some 3 \<rparr>)
        [\<lparr> d_bids = [\<lparr> price = 31 / 50, psize = 7 \<rparr>, \<lparr> price = 2 / 5, psize = 0 \<rparr>],
           d_asks = [\<lparr> price = 11 / 20, psize = 1 \<rparr>], d_sequence = Some 4, d_now = 1 \<rparr>,
         \<lparr> d_bids = [\<lparr> price = 3 / 5, psize = 0 \<rparr>], d_asks = [],
           d_sequence = Some 2, d_now = 2 \<rparr>])
   \<and> getBestBid
     (applyDeltas
        (newInMemoryOrderBook
           \<lparr> marketId = ''m'', tokenId = ''t'',
             bids = [\<lparr> price = 3 / 5, psize = 10 \<rparr>, \<lparr> price = 2 / 5, psize = 5 \<rparr>],
             asks = [\<lparr> price = 1 / 2, psize = 20 \<rparr>],
             lastUpdate = 0, sequence = Some 3 \<rparr>)
        [\<lparr> d_bids = [\<lparr> price = 31 / 50, psize = 7 \<rparr>, \<lparr> price = 2 / 5, psize = 0 \<rparr>],
           d_asks = [\<lparr> price = 11 / 20, psize = 1 \<rparr>], d_sequence = Some 4, d_now = 1 \<rparr>,
         \<lparr> d_bids = [\<lparr> price = 3 / 5, psize = 0 \<rparr>], d_asks = [],
           d_sequence = Some 2, d_now = 2 \<rparr>]) = Some (31 / 50)
   \<and> getBestAsk
     (applyDeltas
        (newInMemoryOrderBook
           \<lparr> marketId = ''m'', tokenId = ''t'',
             bids = [\<lparr> price = 3 / 5, psize = 10 \<rparr>, \<lparr> price = 2 / 5, psize = 5 \<rparr>],
             asks = [\<lparr> price = 1 / 2, psize = 20 \<rparr>],
             lastUpdate = 0, sequence = Some 3 \<rparr>)
        [\<lparr> d_bids = [\<lparr> price = 31 / 50, psize = 7 \<rparr>, \<lparr> price = 2 / 5, psize = 0 \<rparr>],
           d_asks = [\<lparr> price = 11 / 20, psize = 1 \<rparr>], d_sequence = Some 4, d_now = 1 \<rparr>,
         \<lparr> d_bids = [\<lparr> price = 3 / 5, psize = 0 \<rparr>], d_asks = [],
           d_sequence = Some 2, d_now = 2 \<rparr>]) = Some (1 / 2)"
proof -
  let ?st = "newInMemoryOrderBook
           \<lparr> marketId = ''m'', tokenId = ''t'',
             bids = [\<lparr> price = 3 / 5, psize = 10 \<rparr>, \<lparr> price = 2 / 5, psize = 5 \<rparr>],
             asks = [\<lparr> price = 1 / 2, psize = 20 \<rparr>],
             lastUpdate = 0, sequence = Some 3 \<rparr>"
  let ?ds = "[\<lparr> d_bids = [\<lparr> price = 31 / 50, psize = 7 \<rparr>, \<lparr> price = 2 / 5, psize = 0 \<rparr>],
           d_asks = [\<lparr> price = 11 / 20, psize = 1 \<rparr>], d_sequence = Some 4, d_now = 1 \<rparr>,
         \<lparr> d_bids = [\<lparr> price = 3 / 5, psize = 0 \<rparr>], d_asks = [],
           d_sequence = Some 2, d_now = 2 \<rparr>]"
  have h1: "sidesOrdered ?st"
    by (simp add: newInMemoryOrderBook_def sidesOrdered_def bidsOrdered_def asksOrdered_def)
  have h2: "allSizesPositive ?st"
    by (simp add: newInMemoryOrderBook_def allSizesPositive_def sizesPositive_def)
  have ev: "getBestBid (applyDeltas ?st ?ds) = Some (31 / 50) \<and>
            getBestAsk (applyDeltas ?st ?ds) = Some (1 / 2)"
    by (simp add: newInMemoryOrderBook_def applyDeltas_def applyDelta_def isStale_def
          applyLevels_def addExisting_def applyUpdate_def sortLevels_def map_values_def
          map_delete_def getBestBid_def getBestAsk_def)
  from applyDeltas_side_ordering [of ?st ?ds] h1 h2 ev show ?thesis by blast
qed

section \<open>Risk gate: the fixed order of the checks\<close>








section \<open>Decimal rounding\<close>

text \<open>The exponent found by the two searches is the decimal exponent.\<close>

lemma powi_succ: "(10::real) powi (k + 1) = 10 powi k * 10"
  by (simp add: power_int_add)

lemma powi_pred: "(10::real) powi (k - 1) = 10 powi k / 10"
  by (simp add: power_int_diff)

lemma decExpUp_bounds:
  "1 \<le> x \<Longrightarrow> 10 powi decExpUp x \<le> x \<and> x < 10 powi (decExpUp x + 1)"
proof (induction x rule: decExpUp.induct)
  case (1 x)
  show ?case
  proof (cases "x < 10")
    case True
    with "1.prems" show ?thesis by (simp add: decExpUp.simps [of x])
  next
    case False
    then have "1 \<le> x / 10" by simp
    from "1.IH" [OF False this]
    have ih: "10 powi decExpUp (x / 10) \<le> x / 10" "x / 10 < 10 powi (decExpUp (x / 10) + 1)"
      by simp_all
    have e: "decExpUp x = decExpUp (x / 10) + 1"
      using False by (simp add: decExpUp.simps [of x])
    from ih show ?thesis
      unfolding e powi_succ by simp
  qed
qed

lemma decExpDown_bounds:
  "0 < x \<Longrightarrow> x < 1 \<Longrightarrow> 10 powi decExpDown x \<le> x \<and> x < 10 powi (decExpDown x + 1)"
proof (induction x rule: decExpDown.induct)
  case (1 x)
  from "1.prems" have c: "\<not> (x \<le> 0 \<or> 1 \<le> x)" by simp
  have e: "decExpDown x = decExpDown (x * 10) - 1"
    using c by (simp add: decExpDown.simps [of x])
  show ?case
  proof (cases "x * 10 < 1")
    case True
    from "1.IH" [OF c _ True] "1.prems"
    have ih: "10 powi decExpDown (x * 10) \<le> x * 10"
      "x * 10 < 10 powi (decExpDown (x * 10) + 1)"
      by simp_all
    from ih show ?thesis
      unfolding e by (simp add: powi_pred powi_succ)
  next
    case False
    then have "decExpDown (x * 10) = 0" by (simp add: decExpDown.simps [of "x * 10"])
    with False "1.prems" show ?thesis
      unfolding e by (simp add: power_int_minus)
  qed
qed

lemma decExponent_bounds:
  "x \<noteq> 0 \<Longrightarrow> 10 powi decExponent x \<le> \<bar>x\<bar> \<and> \<bar>x\<bar> < 10 powi (decExponent x + 1)"
  using decExpUp_bounds [of "\<bar>x\<bar>"] decExpDown_bounds [of "\<bar>x\<bar>"]
  by (auto simp: decExponent_def)

text \<open>The rounded value is within half a unit of the twentieth digit.\<close>

lemma toPrecision_near:
  "x \<noteq> 0 \<Longrightarrow> \<bar>toPrecision x - x\<bar> \<le> 10 powi (decExponent x - 19) / 2"
proof -
  assume x: "x \<noteq> 0"
  define s :: real where "s = 10 powi (19 - decExponent x)"
  have s0: "0 < s" unfolding s_def by simp
  define n where "n = \<lfloor>\<bar>x\<bar> * s + 1 / 2\<rfloor>"
  have n1: "real_of_int n \<le> \<bar>x\<bar> * s + 1 / 2" unfolding n_def by (rule of_int_floor_le)
  have n2: "\<bar>x\<bar> * s + 1 / 2 < real_of_int n + 1" unfolding n_def by linarith
  have tp: "toPrecision x = sgn x * (real_of_int n / s)"
    using x by (simp add: toPrecision_def Let_def s_def n_def)
  have xs: "x = sgn x * \<bar>x\<bar>" by (simp add: sgn_if)
  have "\<bar>toPrecision x - x\<bar> = \<bar>sgn x * (real_of_int n / s - \<bar>x\<bar>)\<bar>"
    by (subst xs, subst tp) (simp add: algebra_simps sgn_if)
  also have "\<dots> = \<bar>real_of_int n / s - \<bar>x\<bar>\<bar>" using x by (simp add: abs_mult sgn_if)
  also have "\<dots> = \<bar>real_of_int n - \<bar>x\<bar> * s\<bar> / s"
    using s0 by (simp add: field_simps abs_mult)
  also have "\<dots> \<le> (1 / 2) / s"
  proof -
    have "\<bar>real_of_int n - \<bar>x\<bar> * s\<bar> \<le> 1 / 2" using n1 n2 by linarith
    then show ?thesis using s0 by (intro divide_right_mono) simp_all
  qed
  also have "(1 / 2) / s = 10 powi (decExponent x - 19) / 2"
    unfolding s_def by (simp add: power_int_diff)
  finally show ?thesis .
qed

section \<open>Risk manager: position sizing\<close>

lemma toPrecision_zero: "toPrecision 0 = 0"
  by (simp add: toPrecision_def)

lemma dtimes_zero: "dtimes a 0 = 0" "dtimes 0 a = 0"
  by (simp_all add: dtimes_def toPrecision_zero)

text \<open>
  C9 as stated fails when an amount is not positive: \<^verbatim>\<open>kellyFraction\<close> then returns
  \<open>0\<close> without computing the formula.  With \<open>p = 0.5\<close>, win amount \<open>1\<close> and loss amount
  \<open>-1\<close> the formula gives the fraction \<open>1\<close>, hence the size \<open>25\<close>; the code returns \<open>0\<close>.
\<close>

theorem kelly_formula_counterexample:
  "calculatePositionSize 50 100 None None (Some (1 / 2)) (Some 1) (Some (- 1))
     \<noteq> min 50 (100 * max 0 (min 1 (1 / 2 - (1 - 1 / 2) / (1 / (- 1)))) * (25 / 100))"
  by (simp add: calculatePositionSize_def kellyFraction_def dtimes_zero)

text \<open>
  C9, amended.  Write \<open>\<ominus>\<close>, \<open>\<otimes>\<close>, \<open>\<oslash>\<close> for \<^verbatim>\<open>minus\<close>, \<^verbatim>\<open>times\<close>, \<^verbatim>\<open>div\<close> of
  \<^verbatim>\<open>decimal.js\<close>, each rounding its result to 20 significant digits.  With win
  probability \<open>p\<close>, win amount \<open>w\<close> and loss amount \<open>l\<close> all supplied: if \<open>w > 0\<close> and
  \<open>l > 0\<close>, the result is
  \<open>min(signalSize, (balance \<otimes> clamp(p \<ominus> ((1 \<ominus> p) \<oslash> b), 0, 1)) \<otimes> 0.25)\<close> with
  \<open>b = w \<oslash> l\<close>; if \<open>w \<le> 0\<close> or \<open>l \<le> 0\<close>, the Kelly fraction is \<open>0\<close> and the result is
  \<open>min(signalSize, 0)\<close>.  When one of the three Kelly inputs is missing and no stop-loss
  is supplied, the result is \<open>min(signalSize, balance \<otimes> 0.05)\<close>.  The result never
  exceeds the signal size.
\<close>

theorem calculatePositionSize_policies:
  "(0 < w \<and> 0 < l \<longrightarrow>
      calculatePositionSize s bal r sl (Some p) (Some w) (Some l) =
        min s (dtimes
                 (dtimes bal (max 0 (min 1 (dminus p (ddiv (dminus 1 p) (ddiv w l))))))
                 (25 / 100))) \<and>
   (w \<le> 0 \<or> l \<le> 0 \<longrightarrow>
      calculatePositionSize s bal r sl (Some p) (Some w) (Some l) = min s 0) \<and>
   (wp = None \<or> wa = None \<or> la = None \<longrightarrow>
      calculatePositionSize s bal r None wp wa la = min s (dtimes bal (5 / 100))) \<and>
   calculatePositionSize s bal r sl wp wa la \<le> s"
  by (auto simp: calculatePositionSize_def kellyFraction_def Let_def dtimes_zero
           split: option.splits)

text \<open>
  With balance 1000 and signal size 150: \<open>p = 0.6\<close>, \<open>w = 2\<close>, \<open>l = 1\<close> give exactly 100;
  \<open>p = 0.6\<close>, \<open>w = 3\<close>, \<open>l = 1\<close> give \<open>116.66666666666666667\<close>, the rounded value and
  not \<open>350/3\<close>; a negative loss amount gives 0; no inputs give 50.
\<close>

theorem calculatePositionSize_policies_witness:
  "calculatePositionSize 150 1000 None None (Some (3 / 5)) (Some 2) (Some 1) = 100 \<and>
   calculatePositionSize 150 1000 None None (Some (3 / 5)) (Some 3) (Some 1)
     = 11666666666666666667 / 10 ^ 17 \<and>
   calculatePositionSize 150 1000 None None (Some (3 / 5)) (Some 2) (Some (- 1)) = 0 \<and>
   calculatePositionSize 150 1000 None None None None None = 50"
  using calculatePositionSize_policies [of 2 1 150 1000 None None "3 / 5" None None None]
        calculatePositionSize_policies [of 3 1 150 1000 None None "3 / 5" None None None]
        calculatePositionSize_policies [of 2 "- 1" 150 1000 None None "3 / 5" None None None]
  by (simp add: dminus_def ddiv_def dtimes_def toPrecision_def decExponent_def
        decExpUp.simps decExpDown.simps power_int_def)

section \<open>Feature engine: volatility\<close>

lemma tradeAt_sel:
  "tr_tokenId (tradeAt p) = ''token-1''" "tr_price (tradeAt p) = p"
  by (simp_all add: tradeAt_def)

lemma jumpStore_history: "priceHistory jumpStore ''token-1'' = Some jumpPrices"
  by (simp add: jumpStore_def jumpPrices_def addTrade_def updateOrderBook_def
        newMarketStateStore_def tradeAt_def Let_def shift_def)

lemma jumpStore_book: "getOrderBook jumpStore ''token-1'' = Some sampleBook"
  apply (simp add: jumpStore_def jumpPrices_def addTrade_def updateOrderBook_def
        newMarketStateStore_def tradeAt_def Let_def shift_def getOrderBook_def obs_get_def obs_update_def sampleBook_def)
  done

lemma jumpStore_volWindow: "volWindow jumpStore = 20"
  by (simp add: jumpStore_def jumpPrices_def addTrade_def updateOrderBook_def
        newMarketStateStore_def tradeAt_def Let_def shift_def)

lemma jump_vol: "calculateVolatility jumpPrices 20 = sqrt (20 / 441)"
  by (simp add: calculateVolatility_def jumpPrices_def varianceOf_def meanOf_def power2_eq_square Let_def)

lemma jump_window: "windowVolatility jumpPrices 20 = 0" "windowVolatility jumpPrices 21 = 0"
  by (simp_all add: windowVolatility_def jumpPrices_def varianceOf_def meanOf_def sliceLast_def Let_def)

lemma jumpPrices_length: "length jumpPrices = 22" by (simp add: jumpPrices_def)

text \<open>
  C7.  The store has a book for \<^verbatim>\<open>token-1\<close> and has received 22 trades, the first at
  price 1 and the others at 2, so its price history holds these 22 prices.  The most
  recent 20 prices (and the most recent 21) are all 2, so the volatility over the window
  is 0; \<^verbatim>\<open>getDerivedFeatures\<close> reports \<open>\<surd>(20/441)\<close>, the deviation over all 22 prices.
\<close>

theorem ewmaVol_whole_history:
  "priceHistory jumpStore ''token-1'' = Some jumpPrices \<and>
   ewmaVol (fst (getDerivedFeatures jumpStore ''token-1'' 0)) = Some (sqrt (20 / 441)) \<and>
   windowVolatility jumpPrices 20 = 0 \<and>
   windowVolatility jumpPrices 21 = 0 \<and>
   ewmaVol (fst (getDerivedFeatures jumpStore ''token-1'' 0))
     \<noteq> Some (windowVolatility jumpPrices (volWindow jumpStore))"
  using jumpPrices_length
  by (simp add: getDerivedFeatures_def jumpStore_history jumpStore_book jumpStore_volWindow
        jump_vol jump_window Let_def)

section \<open>Feature engine: what \<^verbatim>\<open>getDerivedFeatures\<close> changes\<close>

lemma emaStore_facts:
  "getOrderBook emaStore ''token-1'' = Some sampleBook"
  "getTrades emaStore ''token-1'' (volWindow emaStore) = [tradeAt (1 / 2), tradeAt (3 / 5)]"
  "emas emaStore ''token-1'' = Some \<lparr> alpha = 2 / 21, ema_value = Some (1 / 2) \<rparr>"
  "emaPeriod emaStore = 20"
  by (simp_all add: emaStore_def getDerivedFeatures_def addTrade_def updateOrderBook_def
        newMarketStateStore_def getOrderBook_def obs_get_def obs_update_def getTrades_def
        tts_get_def tts_add_def sliceLast_def Let_def emaStep_def ema_update_def newEMA_def
        sampleBook_def tradeAt_sel)

lemma getDerivedFeatures_store:
  "snd (getDerivedFeatures st tok now) =
     (case getOrderBook st tok of
        None \<Rightarrow> st
      | Some b \<Rightarrow> st\<lparr> emas := snd (emaStep st tok (getTrades st tok (volWindow st))) \<rparr>)"
  by (simp add: getDerivedFeatures_def Let_def split: option.splits)

lemma emaStep_other: "t \<noteq> tok \<Longrightarrow> snd (emaStep st tok ts) t = emas st t"
  by (simp add: emaStep_def Let_def)

lemma getDerivedFeatures_frame:
  "orderBookStore (snd (getDerivedFeatures st tok now)) = orderBookStore st"
  "tradeTapeStore (snd (getDerivedFeatures st tok now)) = tradeTapeStore st"
  "priceHistory (snd (getDerivedFeatures st tok now)) = priceHistory st"
  "emaPeriod (snd (getDerivedFeatures st tok now)) = emaPeriod st"
  "volWindow (snd (getDerivedFeatures st tok now)) = volWindow st"
  by (simp_all add: getDerivedFeatures_store split: option.splits)

lemma getDerivedFeatures_other_emas:
  "t \<noteq> tok \<Longrightarrow> emas (snd (getDerivedFeatures st tok now)) t = emas st t"
  by (simp add: getDerivedFeatures_store emaStep_other split: option.splits)

lemma features_cong:
  assumes "orderBookStore st' = orderBookStore st" "priceHistory st' = priceHistory st"
    "volWindow st' = volWindow st"
  shows "midPrice (fst (getDerivedFeatures st' tok n')) = midPrice (fst (getDerivedFeatures st tok n))"
    "spread (fst (getDerivedFeatures st' tok n')) = spread (fst (getDerivedFeatures st tok n))"
    "spreadBps (fst (getDerivedFeatures st' tok n')) = spreadBps (fst (getDerivedFeatures st tok n))"
    "bidDepth (fst (getDerivedFeatures st' tok n')) = bidDepth (fst (getDerivedFeatures st tok n))"
    "askDepth (fst (getDerivedFeatures st' tok n')) = askDepth (fst (getDerivedFeatures st tok n))"
    "ewmaVol (fst (getDerivedFeatures st' tok n')) = ewmaVol (fst (getDerivedFeatures st tok n))"
  using assms
  by (simp_all add: getDerivedFeatures_def getOrderBook_def Let_def split: option.splits)

lemma getDerivedFeatures_ema:
  "getOrderBook st tok = Some b \<Longrightarrow>
     ema (fst (getDerivedFeatures st tok now)) =
       fst (emaStep st tok (getTrades st tok (volWindow st)))"
  by (simp add: getDerivedFeatures_def Let_def)

lemma getDerivedFeatures_reads:
  "getOrderBook (snd (getDerivedFeatures st tok now)) tok' = getOrderBook st tok'"
  "getTrades (snd (getDerivedFeatures st tok now)) tok' n = getTrades st tok' n"
  by (simp_all add: getOrderBook_def getTrades_def getDerivedFeatures_frame)

text \<open>
  C8.  The call is not a read-only recomputation: it updates the token's EMA object.  The
  sample store has a book for \<^verbatim>\<open>token-1\<close>, an EMA that stands at \<open>0.5\<close> and a latest
  trade at \<open>0.6\<close>.  One call moves the stored EMA (to \<open>107/210\<close>), and a second call
  with no book or trade update in between returns a different \<^verbatim>\<open>ema\<close> (\<open>457/882\<close>
  after \<open>107/210\<close>).
\<close>

theorem getDerivedFeatures_read_only_counterexample:
  "emas (snd (getDerivedFeatures emaStore ''token-1'' 0)) ''token-1'' \<noteq> emas emaStore ''token-1'' \<and>
   ema (fst (getDerivedFeatures (snd (getDerivedFeatures emaStore ''token-1'' 0)) ''token-1'' 0))
     \<noteq> ema (fst (getDerivedFeatures emaStore ''token-1'' 0)) \<and>
   ema (fst (getDerivedFeatures emaStore ''token-1'' 0)) = Some (107 / 210) \<and>
   ema (fst (getDerivedFeatures (snd (getDerivedFeatures emaStore ''token-1'' 0)) ''token-1'' 0))
     = Some (457 / 882)"
proof -
  let ?st1 = "snd (getDerivedFeatures emaStore ''token-1'' 0)"
  have e1: "emas ?st1 ''token-1'' = Some \<lparr> alpha = 2 / 21, ema_value = Some (107 / 210) \<rparr>"
    by (simp add: getDerivedFeatures_store emaStore_facts emaStep_def ema_update_def Let_def
          tradeAt_sel)
  have f1: "ema (fst (getDerivedFeatures emaStore ''token-1'' 0)) = Some (107 / 210)"
    by (simp add: getDerivedFeatures_ema [OF emaStore_facts(1)] emaStore_facts emaStep_def
          ema_update_def Let_def tradeAt_def)
  have b1: "getOrderBook ?st1 ''token-1'' = Some sampleBook"
    by (simp add: getDerivedFeatures_reads emaStore_facts)
  have f2: "ema (fst (getDerivedFeatures ?st1 ''token-1'' 0)) = Some (457 / 882)"
    by (simp add: getDerivedFeatures_ema [OF b1] getDerivedFeatures_reads
          getDerivedFeatures_frame emaStore_facts e1 emaStep_def ema_update_def Let_def
          tradeAt_sel)
  show ?thesis by (simp add: e1 f1 f2 emaStore_facts)
qed

text \<open>
  What the call does change and what it leaves alone: the order books, the trade tapes,
  the price histories and the EMA objects of all other tokens are unchanged; without a
  book for the token, or with an empty tape, nothing changes; with a book and a non-empty
  tape the token's EMA object is replaced by the one updated with the latest trade price.
  The fields other than \<^verbatim>\<open>ema\<close> are the same in two consecutive calls.
\<close>

lemma getDerivedFeatures_effect:
  "orderBookStore (snd (getDerivedFeatures st tok now)) = orderBookStore st \<and>
   tradeTapeStore (snd (getDerivedFeatures st tok now)) = tradeTapeStore st \<and>
   priceHistory (snd (getDerivedFeatures st tok now)) = priceHistory st \<and>
   (\<forall>t. t \<noteq> tok \<longrightarrow> emas (snd (getDerivedFeatures st tok now)) t = emas st t) \<and>
   (getOrderBook st tok = None \<or> getTrades st tok (volWindow st) = [] \<longrightarrow>
      snd (getDerivedFeatures st tok now) = st) \<and>
   (getOrderBook st tok \<noteq> None \<and> getTrades st tok (volWindow st) \<noteq> [] \<longrightarrow>
      emas (snd (getDerivedFeatures st tok now)) tok =
        Some (snd (ema_update
                     (case emas st tok of None \<Rightarrow> newEMA (emaPeriod st) | Some e \<Rightarrow> e)
                     (tr_price (last (getTrades st tok (volWindow st))))))) \<and>
   midPrice (fst (getDerivedFeatures (snd (getDerivedFeatures st tok now)) tok now'))
     = midPrice (fst (getDerivedFeatures st tok now)) \<and>
   spread (fst (getDerivedFeatures (snd (getDerivedFeatures st tok now)) tok now'))
     = spread (fst (getDerivedFeatures st tok now)) \<and>
   spreadBps (fst (getDerivedFeatures (snd (getDerivedFeatures st tok now)) tok now'))
     = spreadBps (fst (getDerivedFeatures st tok now)) \<and>
   bidDepth (fst (getDerivedFeatures (snd (getDerivedFeatures st tok now)) tok now'))
     = bidDepth (fst (getDerivedFeatures st tok now)) \<and>
   askDepth (fst (getDerivedFeatures (snd (getDerivedFeatures st tok now)) tok now'))
     = askDepth (fst (getDerivedFeatures st tok now)) \<and>
   ewmaVol (fst (getDerivedFeatures (snd (getDerivedFeatures st tok now)) tok now'))
     = ewmaVol (fst (getDerivedFeatures st tok now))"
proof -
  have same: "getOrderBook st tok = None \<or> getTrades st tok (volWindow st) = [] \<longrightarrow>
      snd (getDerivedFeatures st tok now) = st"
    by (auto simp: getDerivedFeatures_store emaStep_def split: option.splits)
  have upd: "getOrderBook st tok \<noteq> None \<and> getTrades st tok (volWindow st) \<noteq> [] \<longrightarrow>
      emas (snd (getDerivedFeatures st tok now)) tok =
        Some (snd (ema_update
                     (case emas st tok of None \<Rightarrow> newEMA (emaPeriod st) | Some e \<Rightarrow> e)
                     (tr_price (last (getTrades st tok (volWindow st))))))"
    by (auto simp: getDerivedFeatures_store emaStep_def Let_def split: option.splits)
  note fr = getDerivedFeatures_frame [of st tok now]
  note fc = features_cong [OF fr(1) fr(3) fr(5), of tok now' now]
  show ?thesis
    using same upd fr fc getDerivedFeatures_other_emas [of _ tok st now] by simp
qed


section \<open>Simulator: the fills of one market update\<close>

text \<open>One step of the loop, by the cases of the source.\<close>

lemma processOrders_skip:
  "o_tokenId (h p) \<noteq> tok \<Longrightarrow>
     processOrders cfg tok b trade ((oid, p) # es) h w = processOrders cfg tok b trade es h w"
  by (simp add: Let_def)

lemma processOrders_none:
  "o_tokenId (h p) = tok \<Longrightarrow> attemptFill cfg (h p) b trade w = (None, w1) \<Longrightarrow>
     processOrders cfg tok b trade ((oid, p) # es) h w = processOrders cfg tok b trade es h w1"
  by (simp add: Let_def)

lemma processOrders_filled:
  "o_tokenId (h p) = tok \<Longrightarrow> attemptFill cfg (h p) b trade w = (Some f, w1) \<Longrightarrow>
   o_size (h p) - f_size f \<le> 0 \<Longrightarrow>
     processOrders cfg tok b trade ((oid, p) # es) h w =
       (processOrders cfg tok b trade es h w1)
         \<lparr> newFills := f # newFills (processOrders cfg tok b trade es h w1),
           ordersToRemove := oid # ordersToRemove (processOrders cfg tok b trade es h w1) \<rparr>"
  by (simp add: Let_def)

lemma processOrders_partial:
  "o_tokenId (h p) = tok \<Longrightarrow> attemptFill cfg (h p) b trade w = (Some f, w1) \<Longrightarrow>
   \<not> o_size (h p) - f_size f \<le> 0 \<Longrightarrow>
     processOrders cfg tok b trade ((oid, p) # es) h w =
       (processOrders cfg tok b trade es
          (h(p := (h p)\<lparr> o_size := o_size (h p) - f_size f \<rparr>)) w1)
         \<lparr> newFills := f # newFills (processOrders cfg tok b trade es
              (h(p := (h p)\<lparr> o_size := o_size (h p) - f_size f \<rparr>)) w1) \<rparr>"
  by (simp add: Let_def)

lemma processOrders_append:
  "processOrders cfg tok b trade (es1 @ es2) h w =
     (let r1 = processOrders cfg tok b trade es1 h w;
          r2 = processOrders cfg tok b trade es2 (store r1) (world r1)
      in \<lparr> newFills = newFills r1 @ newFills r2,
           ordersToRemove = ordersToRemove r1 @ ordersToRemove r2,
           store = store r2, world = world r2 \<rparr>)"
proof (induction es1 arbitrary: h w)
  case Nil
  show ?case by (simp add: Let_def)
next
  case (Cons e es1)
  obtain oid p where e: "e = (oid, p)" by (cases e)
  show ?case
  proof (cases "o_tokenId (h p) = tok")
    case False
    note st = processOrders_skip [where h = h and p = p, OF False]
    show ?thesis
      unfolding e append_Cons by (simp only: st Cons.IH [of h w])
  next
    case True
    obtain r w1 where a: "attemptFill cfg (h p) b trade w = (r, w1)"
      by (cases "attemptFill cfg (h p) b trade w")
    show ?thesis
    proof (cases r)
      case None
      note st = processOrders_none [where h = h and p = p, OF True a [unfolded None]]
      show ?thesis
        unfolding e append_Cons by (simp only: st Cons.IH [of h w1])
    next
      case (Some f)
      note a' = a [unfolded Some]
      show ?thesis
      proof (cases "o_size (h p) - f_size f \<le> 0")
        case le: True
        note st = processOrders_filled [where h = h and p = p, OF True a' le]
        show ?thesis
          unfolding e append_Cons
          by (simp only: st Cons.IH [of h w1]) (simp add: Let_def)
      next
        case gt: False
        note st = processOrders_partial [where h = h and p = p, OF True a' gt]
        define h' where "h' = h(p := (h p)\<lparr> o_size := o_size (h p) - f_size f \<rparr>)"
        show ?thesis
          unfolding e append_Cons
          by (simp only: st h'_def [symmetric] Cons.IH [of h' w1]) (simp add: Let_def)
      qed
    qed
  qed
qed

lemma fillsOf_append:
  "fillsOf cfg tok b trade (es1 @ es2) h w =
     fillsOf cfg tok b trade es1 h w
     @ fillsOf cfg tok b trade es2
         (storeAfter cfg tok b trade es1 h w) (worldAfter cfg tok b trade es1 h w)"
  by (simp add: fillsOf_def worldAfter_def storeAfter_def processOrders_append Let_def)

lemma fillsOf_Cons_none:
  assumes "o_tokenId (h p) = tok" and "fst (attemptFill cfg (h p) b trade w) = None"
  shows "fillsOf cfg tok b trade ((oid, p) # es) h w =
           fillsOf cfg tok b trade es h (snd (attemptFill cfg (h p) b trade w))"
proof -
  obtain w1 where a: "attemptFill cfg (h p) b trade w = (None, w1)"
    using assms(2) by (cases "attemptFill cfg (h p) b trade w") simp
  show ?thesis
    unfolding fillsOf_def by (simp only: processOrders_none [where h = h and p = p, OF assms(1) a] a snd_conv)
qed

lemma fillsOf_Cons_some:
  assumes "o_tokenId (h p) = tok" and "fst (attemptFill cfg (h p) b trade w) = Some f"
  shows "\<exists>h2. fillsOf cfg tok b trade ((oid, p) # es) h w =
            f # fillsOf cfg tok b trade es h2 (snd (attemptFill cfg (h p) b trade w))"
proof -
  obtain w1 where a: "attemptFill cfg (h p) b trade w = (Some f, w1)"
    using assms(2) by (cases "attemptFill cfg (h p) b trade w") simp
  show ?thesis
  proof (cases "o_size (h p) - f_size f \<le> 0")
    case True
    have "fillsOf cfg tok b trade ((oid, p) # es) h w =
            f # fillsOf cfg tok b trade es h (snd (attemptFill cfg (h p) b trade w))"
      unfolding fillsOf_def
      by (simp only: processOrders_filled [where h = h and p = p, OF assms(1) a True] a
            snd_conv) simp
    then show ?thesis by blast
  next
    case False
    have "fillsOf cfg tok b trade ((oid, p) # es) h w =
            f # fillsOf cfg tok b trade es
                  (h(p := (h p)\<lparr> o_size := o_size (h p) - f_size f \<rparr>))
                  (snd (attemptFill cfg (h p) b trade w))"
      unfolding fillsOf_def
      by (simp only: processOrders_partial [where h = h and p = p, OF assms(1) a False] a
            snd_conv) simp
    then show ?thesis by blast
  qed
qed

lemma processMarketUpdate_fills:
  "fst (processMarketUpdate sim tok b trade h w) =
     fillsOf (sim_config sim) tok b trade (openOrders sim) h w"
  by (simp add: processMarketUpdate_def fillsOf_def Let_def)

text \<open>The fills of one update, split at one open order of the token.\<close>

lemma processMarketUpdate_split_none:
  assumes "openOrders sim = es1 @ (oid, p) # es2"
    and "ord = storeAfter (sim_config sim) tok b trade es1 h w p"
    and "o_tokenId ord = tok"
    and "fst (attemptFill (sim_config sim) ord b trade
                (worldAfter (sim_config sim) tok b trade es1 h w)) = None"
  shows "fst (processMarketUpdate sim tok b trade h w) =
           fillsOf (sim_config sim) tok b trade es1 h w
           @ fillsOf (sim_config sim) tok b trade es2
               (storeAfter (sim_config sim) tok b trade es1 h w)
               (snd (attemptFill (sim_config sim) ord b trade
                       (worldAfter (sim_config sim) tok b trade es1 h w)))"
  using assms fillsOf_Cons_none [of "storeAfter (sim_config sim) tok b trade es1 h w" p tok
      "sim_config sim" b trade "worldAfter (sim_config sim) tok b trade es1 h w" oid es2]
  by (simp add: processMarketUpdate_fills fillsOf_append)

lemma processMarketUpdate_split_some:
  assumes "openOrders sim = es1 @ (oid, p) # es2"
    and "ord = storeAfter (sim_config sim) tok b trade es1 h w p"
    and "o_tokenId ord = tok"
    and "fst (attemptFill (sim_config sim) ord b trade
                (worldAfter (sim_config sim) tok b trade es1 h w)) = Some f"
  shows "\<exists>h2 w2. fst (processMarketUpdate sim tok b trade h w) =
           fillsOf (sim_config sim) tok b trade es1 h w
           @ f # fillsOf (sim_config sim) tok b trade es2 h2 w2"
  using assms fillsOf_Cons_some [of "storeAfter (sim_config sim) tok b trade es1 h w" p tok
      "sim_config sim" b trade "worldAfter (sim_config sim) tok b trade es1 h w" f oid es2]
  by (auto simp: processMarketUpdate_fills fillsOf_append)

text \<open>An object that no earlier entry refers to is read as it was before the update.\<close>

lemma storeAfter_unreferenced:
  "p \<notin> snd ` set es \<Longrightarrow> storeAfter cfg tok b trade es h w p = h p"
proof (induction es arbitrary: h w)
  case Nil
  show ?case by (simp add: storeAfter_def)
next
  case (Cons e es)
  obtain oid q where e: "e = (oid, q)" by (cases e)
  from Cons.prems e have ne: "q \<noteq> p" and rest: "p \<notin> snd ` set es" by auto
  have ih: "store (processOrders cfg tok b trade es h' w') p = h' p" for h' w'
    using Cons.IH [OF rest, of h' w'] by (simp add: storeAfter_def)
  show ?case
  proof (cases "o_tokenId (h q) = tok")
    case False
    note st = processOrders_skip [where h = h and p = q, OF False]
    show ?thesis
      unfolding e storeAfter_def by (simp only: st ih)
  next
    case True
    obtain r w1 where a: "attemptFill cfg (h q) b trade w = (r, w1)"
      by (cases "attemptFill cfg (h q) b trade w")
    show ?thesis
    proof (cases r)
      case None
      note st = processOrders_none [where h = h and p = q, OF True a [unfolded None]]
      show ?thesis
        unfolding e storeAfter_def by (simp only: st ih)
    next
      case (Some f)
      note a' = a [unfolded Some]
      show ?thesis
      proof (cases "o_size (h q) - f_size f \<le> 0")
        case le: True
        note st = processOrders_filled [where h = h and p = q, OF True a' le]
        show ?thesis
          unfolding e storeAfter_def by (simp only: st) (simp add: ih)
      next
        case gt: False
        note st = processOrders_partial [where h = h and p = q, OF True a' gt]
        show ?thesis
          unfolding e storeAfter_def using ne by (simp only: st) (auto simp: ih)
      qed
    qed
  qed
qed

lemma createFill_fields:
  "f_orderId (fst (createFill cfg order p sz slip spr w)) = o_id order"
  "f_tokenId (fst (createFill cfg order p sz slip spr w)) = o_tokenId order"
  "f_side (fst (createFill cfg order p sz slip spr w)) = o_side order"
  "f_price (fst (createFill cfg order p sz slip spr w)) = p"
  "f_size (fst (createFill cfg order p sz slip spr w)) = sz"
  "slippage (fst (createFill cfg order p sz slip spr w)) = \<bar>slip\<bar>"
  "spreadPaid (fst (createFill cfg order p sz slip spr w)) = \<bar>spr\<bar>"
  "fee (fst (createFill cfg order p sz slip spr w)) = p * sz * feeRate cfg"
  by (simp_all add: createFill_def Let_def)

lemma orderOf_sel:
  "o_id (orderOf i sd ty p sz) = i" "o_tokenId (orderOf i sd ty p sz) = ''token-1''"
  "o_side (orderOf i sd ty p sz) = sd" "o_price (orderOf i sd ty p sz) = p"
  "o_size (orderOf i sd ty p sz) = sz" "o_type (orderOf i sd ty p sz) = ty"
  by (simp_all add: orderOf_def)

lemma simWith_sel:
  "openOrders (simWith x) = [] @ (o_id x, 0) # []" "sim_config (simWith x) = sampleConfig"
  by (simp_all add: simWith_def placeOrder_def newPaperExecutionSim_def storeOf_def)

lemma storeAfter_Nil: "storeAfter cfg tok b trade [] h w = h"
  and worldAfter_Nil: "worldAfter cfg tok b trade [] h w = w"
  and fillsOf_Nil: "fillsOf cfg tok b trade [] h w = []"
  by (simp_all add: storeAfter_def worldAfter_def fillsOf_def)


section \<open>Simulator: limit orders that cross the spread\<close>







section \<open>Simulator: market orders without a mid price\<close>

lemma market_no_mid_attempt:
  assumes "o_type ord = Market"
  shows
    "o_side ord = Buy \<and> mb_asks b = best # rest \<and> mb_bids b = [] \<longrightarrow>
       (\<exists>f. fst (attemptFill cfg ord b trade w) = Some f \<and> f_orderId f = o_id ord \<and>
             f_price f = price best \<and> f_size f = min (o_size ord) (psize best) \<and>
             slippage f = 0 \<and> spreadPaid f = 0)"
    "o_side ord = Sell \<and> mb_bids b = best # rest \<and> mb_asks b = [] \<longrightarrow>
       (\<exists>f. fst (attemptFill cfg ord b trade w) = Some f \<and> f_orderId f = o_id ord \<and>
             f_price f = price best \<and> f_size f = min (o_size ord) (psize best) \<and>
             slippage f = 0 \<and> spreadPaid f = 0)"
  using assms
  by (simp_all add: attemptFill_def fillMarketOrder_def calculateMidPrice_def
        createFill_fields Let_def)

text \<open>
  C10.  Let the entry \<open>(oid, p)\<close> be an open order of the simulator, and \<open>ord\<close> the market
  order on the token that the object \<open>p\<close> holds when the loop of \<^verbatim>\<open>processMarketUpdate\<close>
  reaches it.  If it is a buy and the book has asks but no bids, or a sell and the book
  has bids but no asks, then there is no mid price, and the call still returns a fill
  for \<open>ord\<close>, at the best price of the opposing side, of size
  \<open>min(remaining size, best level size)\<close>, with slippage and spread paid both \<open>0\<close>.
\<close>

theorem market_order_fills_without_mid:
  assumes "openOrders sim = es1 @ (oid, p) # es2"
    and "ord = storeAfter (sim_config sim) tok b trade es1 h w p"
    and "o_tokenId ord = tok"
    and "o_type ord = Market"
    and "o_side ord = Buy \<and> mb_asks b = best # rest \<and> mb_bids b = [] \<or>
         o_side ord = Sell \<and> mb_bids b = best # rest \<and> mb_asks b = []"
  shows "calculateMidPrice b = None \<and>
         (\<exists>f h2 w2. fst (processMarketUpdate sim tok b trade h w) =
                  fillsOf (sim_config sim) tok b trade es1 h w
                  @ f # fillsOf (sim_config sim) tok b trade es2 h2 w2 \<and>
           f_orderId f = o_id ord \<and> f_price f = price best \<and>
           f_size f = min (o_size ord) (psize best) \<and>
           slippage f = 0 \<and> spreadPaid f = 0)"
proof -
  let ?w1 = "worldAfter (sim_config sim) tok b trade es1 h w"
  have mid: "calculateMidPrice b = None"
    using assms(5) by (auto simp: calculateMidPrice_def)
  obtain f where f: "fst (attemptFill (sim_config sim) ord b trade ?w1) = Some f"
    "f_orderId f = o_id ord" "f_price f = price best"
    "f_size f = min (o_size ord) (psize best)" "slippage f = 0" "spreadPaid f = 0"
    using market_no_mid_attempt [OF assms(4), of b best rest "sim_config sim" trade ?w1]
      assms(5) by blast
  from processMarketUpdate_split_some [OF assms(1,2,3) f(1)] f(2-6) mid show ?thesis
    by blast
qed

theorem market_order_fills_without_mid_witness:
  "(\<exists>f. fst (processMarketUpdate (simWith (orderOf ''order-1'' Buy Market (1 / 2) 50))
              ''token-1'' askOnlyBook None
              (storeOf (orderOf ''order-1'' Buy Market (1 / 2) 50)) worldA) = [f] \<and>
        f_orderId f = ''order-1'' \<and> f_price f = 51 / 100 \<and> f_size f = 50 \<and>
        slippage f = 0 \<and> spreadPaid f = 0) \<and>
   (\<exists>f. fst (processMarketUpdate (simWith (orderOf ''order-2'' Sell Market (1 / 2) 500))
              ''token-1'' bidOnlyBook None
              (storeOf (orderOf ''order-2'' Sell Market (1 / 2) 500)) worldA) = [f] \<and>
        f_orderId f = ''order-2'' \<and> f_price f = 49 / 100 \<and> f_size f = 100 \<and>
        slippage f = 0 \<and> spreadPaid f = 0)"
proof -
  let ?o1 = "orderOf ''order-1'' Buy Market (1 / 2) 50"
  let ?o2 = "orderOf ''order-2'' Sell Market (1 / 2) 500"
  have a1: "openOrders (simWith ?o1) = [] @ (''order-1'', 0) # []"
    and a2: "openOrders (simWith ?o2) = [] @ (''order-2'', 0) # []"
    by (simp_all add: simWith_sel orderOf_sel)
  have s1: "?o1 = storeAfter (sim_config (simWith ?o1)) ''token-1'' askOnlyBook None []
                    (storeOf ?o1) worldA 0"
    and s2: "?o2 = storeAfter (sim_config (simWith ?o2)) ''token-1'' bidOnlyBook None []
                    (storeOf ?o2) worldA 0"
    by (simp_all add: storeAfter_Nil storeOf_def)
  have t1: "o_tokenId ?o1 = ''token-1''" and t2: "o_tokenId ?o2 = ''token-1''"
    and m1: "o_type ?o1 = Market" and m2: "o_type ?o2 = Market"
    by (simp_all add: orderOf_sel)
  have c1: "o_side ?o1 = Buy \<and>
            mb_asks askOnlyBook =
              \<lparr> price = 51 / 100, psize = 150 \<rparr> # [\<lparr> price = 52 / 100, psize = 250 \<rparr>] \<and>
            mb_bids askOnlyBook = [] \<or>
            o_side ?o1 = Sell \<and>
            mb_bids askOnlyBook =
              \<lparr> price = 51 / 100, psize = 150 \<rparr> # [\<lparr> price = 52 / 100, psize = 250 \<rparr>] \<and>
            mb_asks askOnlyBook = []"
    by (simp add: orderOf_sel askOnlyBook_def sampleBook_def)
  have c2: "o_side ?o2 = Buy \<and>
            mb_asks bidOnlyBook =
              \<lparr> price = 49 / 100, psize = 100 \<rparr> # [\<lparr> price = 48 / 100, psize = 200 \<rparr>] \<and>
            mb_bids bidOnlyBook = [] \<or>
            o_side ?o2 = Sell \<and>
            mb_bids bidOnlyBook =
              \<lparr> price = 49 / 100, psize = 100 \<rparr> # [\<lparr> price = 48 / 100, psize = 200 \<rparr>] \<and>
            mb_asks bidOnlyBook = []"
    by (simp add: orderOf_sel bidOnlyBook_def sampleBook_def)
  from market_order_fills_without_mid [OF a1 s1 t1 m1 c1]
       market_order_fills_without_mid [OF a2 s2 t2 m2 c2]
  show ?thesis by (simp add: orderOf_sel fillsOf_Nil)
qed


section \<open>Simulator: passive limit orders\<close>

lemma passive_attempt:
  assumes "o_type ord = Limit" "\<not> crossesSpread ord b"
  shows "attemptFill cfg ord b trade w =
           (case calculateMidPrice b of
              None \<Rightarrow> (None, w)
            | Some m \<Rightarrow> passiveFill cfg ord m trade w)"
  using assms
  by (cases "o_side ord")
     (auto simp: attemptFill_def fillLimitOrder_def crossesSpread_def
           split: option.splits list.splits)

lemma passiveFill_some:
  assumes "trade = Some t" "wouldFill ord t" "fst (Math_random w) < fillProbability cfg"
  shows "\<exists>f. fst (passiveFill cfg ord m trade w) = Some f \<and> f_orderId f = o_id ord \<and>
           f_price f = o_price ord \<and> f_size f = o_size ord \<and> spreadPaid f = 0 \<and>
           slippage f = \<bar>o_price ord - m\<bar>"
  using assms
  by (cases "o_side ord") (simp_all add: passiveFill_def createFill_fields Let_def)

lemma passiveFill_none:
  "trade = None \<or> (\<exists>t. trade = Some t \<and> \<not> wouldFill ord t) \<Longrightarrow>
     passiveFill cfg ord m trade w = (None, w)"
  by (auto simp: passiveFill_def)

lemma passiveFill_no_draw:
  "trade = Some t \<Longrightarrow> wouldFill ord t \<Longrightarrow> \<not> fst (Math_random w) < fillProbability cfg \<Longrightarrow>
     fst (passiveFill cfg ord m trade w) = None"
  by (simp add: passiveFill_def Let_def)

text \<open>
  C6.  Let the entry \<open>(oid, p)\<close> be an open order of the simulator, and \<open>ord\<close> the limit
  order on the token, not crossing the spread, that the object \<open>p\<close> holds when the loop of
  \<^verbatim>\<open>processMarketUpdate\<close> reaches it.  The call returns a fill for it exactly when a trade
  is supplied whose price is at or through the limit, a mid price exists, and the draw
  that the call reads for this order is below \<^verbatim>\<open>fillProbability\<close>; that fill is a single
  one, of the whole remaining size at the limit price, with spread paid \<open>0\<close> and slippage
  \<open>|limit - mid|\<close>.  In every other case the order contributes no fill; in particular,
  with no trade or a trade that has not reached the limit, there is no fill, no draw is
  read and no object is written.
\<close>

theorem passive_limit_fill:
  assumes "openOrders sim = es1 @ (oid, p) # es2"
    and "ord = storeAfter (sim_config sim) tok b trade es1 h w p"
    and "o_tokenId ord = tok"
    and "o_type ord = Limit" and "\<not> crossesSpread ord b"
  shows
    "(if \<exists>t m. trade = Some t \<and> wouldFill ord t \<and> calculateMidPrice b = Some m \<and>
               fst (Math_random (worldAfter (sim_config sim) tok b trade es1 h w))
                 < fillProbability (sim_config sim)
      then \<exists>f h2 w2 m. calculateMidPrice b = Some m \<and>
             fst (processMarketUpdate sim tok b trade h w) =
               fillsOf (sim_config sim) tok b trade es1 h w
               @ f # fillsOf (sim_config sim) tok b trade es2 h2 w2 \<and>
             f_orderId f = o_id ord \<and> f_price f = o_price ord \<and> f_size f = o_size ord \<and>
             spreadPaid f = 0 \<and> slippage f = \<bar>o_price ord - m\<bar>
      else \<exists>w2. fst (processMarketUpdate sim tok b trade h w) =
             fillsOf (sim_config sim) tok b trade es1 h w
             @ fillsOf (sim_config sim) tok b trade es2
                 (storeAfter (sim_config sim) tok b trade es1 h w) w2) \<and>
     (trade = None \<or> (\<exists>t. trade = Some t \<and> \<not> wouldFill ord t) \<longrightarrow>
        fst (processMarketUpdate sim tok b trade h w) =
          fillsOf (sim_config sim) tok b trade es1 h w
          @ fillsOf (sim_config sim) tok b trade es2
              (storeAfter (sim_config sim) tok b trade es1 h w)
              (worldAfter (sim_config sim) tok b trade es1 h w))"
proof -
  let ?cfg = "sim_config sim"
  let ?w1 = "worldAfter ?cfg tok b trade es1 h w"
  let ?h1 = "storeAfter ?cfg tok b trade es1 h w"
  note att = passive_attempt [OF assms(4,5), of ?cfg trade ?w1]
  have part2: "trade = None \<or> (\<exists>t. trade = Some t \<and> \<not> wouldFill ord t) \<longrightarrow>
        fst (processMarketUpdate sim tok b trade h w) =
          fillsOf ?cfg tok b trade es1 h w @ fillsOf ?cfg tok b trade es2 ?h1 ?w1"
  proof
    assume nt: "trade = None \<or> (\<exists>t. trade = Some t \<and> \<not> wouldFill ord t)"
    have a: "attemptFill ?cfg ord b trade ?w1 = (None, ?w1)"
      using att passiveFill_none [OF nt] by (simp split: option.splits)
    then have n: "fst (attemptFill ?cfg ord b trade ?w1) = None" by simp
    from processMarketUpdate_split_none [OF assms(1,2,3) n] a
    show "fst (processMarketUpdate sim tok b trade h w) =
          fillsOf ?cfg tok b trade es1 h w @ fillsOf ?cfg tok b trade es2 ?h1 ?w1"
      by simp
  qed
  have part1: "(if \<exists>t m. trade = Some t \<and> wouldFill ord t \<and> calculateMidPrice b = Some m \<and>
               fst (Math_random ?w1) < fillProbability ?cfg
      then \<exists>f h2 w2 m. calculateMidPrice b = Some m \<and>
             fst (processMarketUpdate sim tok b trade h w) =
               fillsOf ?cfg tok b trade es1 h w @ f # fillsOf ?cfg tok b trade es2 h2 w2 \<and>
             f_orderId f = o_id ord \<and> f_price f = o_price ord \<and> f_size f = o_size ord \<and>
             spreadPaid f = 0 \<and> slippage f = \<bar>o_price ord - m\<bar>
      else \<exists>w2. fst (processMarketUpdate sim tok b trade h w) =
             fillsOf ?cfg tok b trade es1 h w @ fillsOf ?cfg tok b trade es2 ?h1 w2)"
  proof (cases "\<exists>t m. trade = Some t \<and> wouldFill ord t \<and> calculateMidPrice b = Some m \<and>
               fst (Math_random ?w1) < fillProbability ?cfg")
    case True
    then obtain t m where c: "trade = Some t" "wouldFill ord t" "calculateMidPrice b = Some m"
      "fst (Math_random ?w1) < fillProbability ?cfg" by blast
    obtain f where f: "fst (passiveFill ?cfg ord m trade ?w1) = Some f" "f_orderId f = o_id ord"
      "f_price f = o_price ord" "f_size f = o_size ord" "spreadPaid f = 0"
      "slippage f = \<bar>o_price ord - m\<bar>"
      using passiveFill_some [OF c(1,2,4), of m] by blast
    have sf: "fst (attemptFill ?cfg ord b trade ?w1) = Some f"
      using att c(3) f(1) by simp
    from processMarketUpdate_split_some [OF assms(1,2,3) sf] f(2-6) c(3)
    have ex: "\<exists>f h2 w2 m. calculateMidPrice b = Some m \<and>
             fst (processMarketUpdate sim tok b trade h w) =
               fillsOf ?cfg tok b trade es1 h w @ f # fillsOf ?cfg tok b trade es2 h2 w2 \<and>
             f_orderId f = o_id ord \<and> f_price f = o_price ord \<and> f_size f = o_size ord \<and>
             spreadPaid f = 0 \<and> slippage f = \<bar>o_price ord - m\<bar>"
      by blast
    show ?thesis by (subst if_P [OF True]) (rule ex)
  next
    case False
    have n: "fst (attemptFill ?cfg ord b trade ?w1) = None"
    proof (cases "calculateMidPrice b")
      case None
      with att show ?thesis by simp
    next
      case (Some m)
      show ?thesis
      proof (cases trade)
        case None
        with att Some passiveFill_none [of trade ord ?cfg m ?w1] show ?thesis by simp
      next
        case (Some t)
        show ?thesis
        proof (cases "wouldFill ord t")
          case True
          with False Some \<open>calculateMidPrice b = Some m\<close>
          have "\<not> fst (Math_random ?w1) < fillProbability ?cfg" by simp
          from passiveFill_no_draw [OF Some True this, of m] att
            \<open>calculateMidPrice b = Some m\<close>
          show ?thesis by simp
        next
          case False
          with att Some \<open>calculateMidPrice b = Some m\<close>
            passiveFill_none [of trade ord ?cfg m ?w1]
          show ?thesis by simp
        qed
      qed
    qed
    from processMarketUpdate_split_none [OF assms(1,2,3) n]
    have ex: "\<exists>w2. fst (processMarketUpdate sim tok b trade h w) =
             fillsOf ?cfg tok b trade es1 h w @ fillsOf ?cfg tok b trade es2 ?h1 w2"
      by blast
    show ?thesis by (subst if_not_P [OF False]) (rule ex)
  qed
  from part1 part2 show ?thesis by blast
qed

text \<open>
  A buy limit at \<open>0.495\<close> on the sample book (mid \<open>0.5\<close>) fills in full on a trade at
  \<open>0.49\<close> with the draw \<open>0.25 < 0.5\<close>; it does not fill without a trade, nor on a trade
  at \<open>0.5\<close>.
\<close>

theorem passive_limit_fill_witness:
  "(\<exists>f. fst (processMarketUpdate (simWith (orderOf ''order-1'' Buy Limit (99 / 200) 50))
              ''token-1'' sampleBook (Some (tradeAt (49 / 100)))
              (storeOf (orderOf ''order-1'' Buy Limit (99 / 200) 50)) worldA) = [f] \<and>
        f_orderId f = ''order-1'' \<and> f_price f = 99 / 200 \<and> f_size f = 50 \<and>
        spreadPaid f = 0 \<and> slippage f = 1 / 200) \<and>
   fst (processMarketUpdate (simWith (orderOf ''order-1'' Buy Limit (99 / 200) 50))
          ''token-1'' sampleBook None
          (storeOf (orderOf ''order-1'' Buy Limit (99 / 200) 50)) worldA) = [] \<and>
   fst (processMarketUpdate (simWith (orderOf ''order-1'' Buy Limit (99 / 200) 50))
          ''token-1'' sampleBook (Some (tradeAt (1 / 2)))
          (storeOf (orderOf ''order-1'' Buy Limit (99 / 200) 50)) worldA) = []"
proof -
  let ?ord = "orderOf ''order-1'' Buy Limit (99 / 200) 50"
  have h1: "openOrders (simWith ?ord) = [] @ (''order-1'', 0) # []"
    by (simp add: simWith_sel orderOf_sel)
  have h2: "?ord = storeAfter (sim_config (simWith ?ord)) ''token-1'' sampleBook tr []
                     (storeOf ?ord) worldA 0" for tr
    by (simp add: storeAfter_Nil storeOf_def)
  have h3: "o_tokenId ?ord = ''token-1''" and h4: "o_type ?ord = Limit"
    by (simp_all add: orderOf_sel)
  have h5: "\<not> crossesSpread ?ord sampleBook"
    by (simp add: crossesSpread_def orderOf_sel sampleBook_def)
  have mid: "calculateMidPrice sampleBook = Some (1 / 2)"
    by (simp add: calculateMidPrice_def sampleBook_def)
  have draw: "fst (Math_random (worldAfter sampleConfig ''token-1'' sampleBook tr []
                                  (storeOf ?ord) worldA))
                < fillProbability sampleConfig" for tr
    by (simp add: worldAfter_Nil Math_random_def worldA_def sampleConfig_def)
  have wf: "wouldFill ?ord (tradeAt (49 / 100))" "\<not> wouldFill ?ord (tradeAt (1 / 2))"
    by (simp_all add: wouldFill_def orderOf_sel tradeAt_sel)
  have cond: "\<exists>t m. Some (tradeAt (49 / 100)) = Some t \<and> wouldFill ?ord t \<and>
               calculateMidPrice sampleBook = Some m \<and>
               fst (Math_random
                      (worldAfter (sim_config (simWith ?ord)) ''token-1'' sampleBook
                         (Some (tradeAt (49 / 100))) [] (storeOf ?ord) worldA))
                 < fillProbability (sim_config (simWith ?ord))"
    by (rule exI [of _ "tradeAt (49 / 100)"], rule exI [of _ "1 / 2"])
       (simp add: mid draw wf simWith_sel)
  note th = passive_limit_fill
    [OF h1 h2 [of "Some (tradeAt (49 / 100))"] h3 h4 h5]
  note filled = conjunct1 [OF th, unfolded if_P [OF cond]]
  have first: "\<exists>f. fst (processMarketUpdate (simWith ?ord) ''token-1'' sampleBook
                         (Some (tradeAt (49 / 100))) (storeOf ?ord) worldA) = [f] \<and>
        f_orderId f = ''order-1'' \<and> f_price f = 99 / 200 \<and> f_size f = 50 \<and>
        spreadPaid f = 0 \<and> slippage f = 1 / 200"
    using filled mid by (auto simp: orderOf_sel fillsOf_Nil)
  have second: "fst (processMarketUpdate (simWith ?ord) ''token-1'' sampleBook None
                       (storeOf ?ord) worldA) = []"
    using passive_limit_fill [OF h1 h2 [of None] h3 h4 h5] by (simp add: fillsOf_Nil)
  have third: "fst (processMarketUpdate (simWith ?ord) ''token-1'' sampleBook
                      (Some (tradeAt (1 / 2))) (storeOf ?ord) worldA) = []"
    using passive_limit_fill [OF h1 h2 [of "Some (tradeAt (1 / 2))"] h3 h4 h5] wf(2)
    by (simp add: fillsOf_Nil)
  from first second third show ?thesis by blast
qed


section \<open>Simulator: determinism\<close>


















end
